theory Spec2Isabelle
  imports Complex_Main
begin

section \<open>Python values\<close>

text \<open>
  The programs move JSON documents between an embedding API, an OpenSearch client and
  the caller. A Python float is a finite number, an infinity or NaN; finite doubles are
  rationals and Python compares them (and an int with a float) exactly, so the order
  on \<open>rat\<close> is the order the interpreter computes. A dict is an association list in
  insertion order, with keys that are strings (JSON objects have no other keys).
\<close>

datatype pyfloat = Finite rat | PosInf | NegInf | NaN

datatype json =
    JNull
  | JBool bool
  | JInt int
  | JFloat pyfloat
  | JStr string
  | JArr "json list"
  | JObj "(string \<times> json) list"

type_synonym dict = "(string \<times> json) list"

text \<open>
  The exceptions of class \<open>Exception\<close> that the code distinguishes, each with the text
  \<open>str(e)\<close> gives: \<open>requests.exceptions.RequestException\<close> and its subclasses
  (\<open>HTTPError\<close>, \<open>ConnectionError\<close>, \<open>Timeout\<close>, ...), the three classes of
  \<open>opensearchpy.exceptions\<close> named in the handlers (with their subclasses), the errors
  the interpreter raises on an ill-typed value, and any other subclass of \<open>Exception\<close>.
\<close>

datatype exn =
    RequestsException string
  | OSConnectionError string
  | OSRequestError string
  | OSNotFoundError string
  | PyTypeError string
  | PyAttributeError string
  | PyIndexError string
  | PyKeyError string
  | OtherException string

fun str_exn :: "exn \<Rightarrow> string" where
  "str_exn (RequestsException m) = m"
| "str_exn (OSConnectionError m) = m"
| "str_exn (OSRequestError m) = m"
| "str_exn (OSNotFoundError m) = m"
| "str_exn (PyTypeError m) = m"
| "str_exn (PyAttributeError m) = m"
| "str_exn (PyIndexError m) = m"
| "str_exn (PyKeyError m) = m"
| "str_exn (OtherException m) = m"

definition squote :: "string \<Rightarrow> string" where
  "squote s = CHR 0x27 # s @ [CHR 0x27]"

fun type_name :: "json \<Rightarrow> string" where
  "type_name JNull = ''NoneType''"
| "type_name (JBool b) = ''bool''"
| "type_name (JInt i) = ''int''"
| "type_name (JFloat f) = ''float''"
| "type_name (JStr s) = ''str''"
| "type_name (JArr xs) = ''list''"
| "type_name (JObj d) = ''dict''"

text \<open>\<open>bool(v)\<close>: the truth value of \<open>if v\<close> and \<open>if not v\<close>.\<close>

fun truthy :: "json \<Rightarrow> bool" where
  "truthy JNull = False"
| "truthy (JBool b) = b"
| "truthy (JInt i) = (i \<noteq> 0)"
| "truthy (JFloat f) = (f \<noteq> Finite 0)"
| "truthy (JStr s) = (s \<noteq> [])"
| "truthy (JArr xs) = (xs \<noteq> [])"
| "truthy (JObj d) = (d \<noteq> [])"

text \<open>\<open>a > b\<close> on floats: false as soon as one side is NaN.\<close>

fun float_gt :: "pyfloat \<Rightarrow> pyfloat \<Rightarrow> bool" where
  "float_gt NaN b = False"
| "float_gt a NaN = False"
| "float_gt (Finite a) (Finite b) = (b < a)"
| "float_gt (Finite a) PosInf = False"
| "float_gt (Finite a) NegInf = True"
| "float_gt PosInf PosInf = False"
| "float_gt PosInf b = True"
| "float_gt NegInf b = False"

fun float_le :: "pyfloat \<Rightarrow> pyfloat \<Rightarrow> bool" where
  "float_le NaN b = False"
| "float_le a NaN = False"
| "float_le (Finite a) (Finite b) = (a \<le> b)"
| "float_le (Finite a) PosInf = True"
| "float_le (Finite a) NegInf = False"
| "float_le PosInf PosInf = True"
| "float_le PosInf b = False"
| "float_le NegInf b = True"

text \<open>
  The numbers of Python (\<open>bool\<close> is a subclass of \<open>int\<close>) as floats; comparing an
  int with a float is exact in CPython, as it is here.
\<close>

fun as_number :: "json \<Rightarrow> pyfloat option" where
  "as_number (JBool b) = Some (Finite (if b then 1 else 0))"
| "as_number (JInt i) = Some (Finite (of_int i))"
| "as_number (JFloat f) = Some f"
| "as_number v = None"

text \<open>\<open>v > s\<close> for a float \<open>s\<close>: a TypeError when \<open>v\<close> is not a number.\<close>

definition py_gt :: "json \<Rightarrow> pyfloat \<Rightarrow> exn + bool" where
  "py_gt v s =
     (case as_number v of
        Some f \<Rightarrow> Inr (float_gt f s)
      | None \<Rightarrow> Inl (PyTypeError (squote ''>'' @ '' not supported between instances of ''
                 @ squote (type_name v) @ '' and '' @ squote ''float'')))"

subsection \<open>Dicts\<close>

definition dict_get :: "dict \<Rightarrow> string \<Rightarrow> json \<Rightarrow> json" where
  "dict_get d k dflt = (case map_of d k of Some v \<Rightarrow> v | None \<Rightarrow> dflt)"

definition dict_has :: "dict \<Rightarrow> string \<Rightarrow> bool" where
  "dict_has d k = (case map_of d k of Some v \<Rightarrow> True | None \<Rightarrow> False)"

text \<open>\<open>d[k]\<close>: KeyError when the key is missing (\<open>str\<close> of a KeyError is the key's repr).\<close>

definition dict_item :: "dict \<Rightarrow> string \<Rightarrow> exn + json" where
  "dict_item d k = (case map_of d k of Some v \<Rightarrow> Inr v | None \<Rightarrow> Inl (PyKeyError (squote k)))"

text \<open>\<open>d[k] = v\<close>: the value is replaced where the key stands, or the pair is added last.\<close>

fun dict_set :: "dict \<Rightarrow> string \<Rightarrow> json \<Rightarrow> dict" where
  "dict_set [] k v = [(k, v)]"
| "dict_set (p # ps) k v = (if fst p = k then (k, v) # ps else p # dict_set ps k v)"

definition dict_pop :: "dict \<Rightarrow> string \<Rightarrow> dict" where
  "dict_pop d k = filter (\<lambda>p. fst p \<noteq> k) d"

subsection \<open>Operations on a value of any type\<close>

text \<open>\<open>v.get(k, dflt)\<close>: only a dict has the method.\<close>

fun py_get :: "json \<Rightarrow> string \<Rightarrow> json \<Rightarrow> exn + json" where
  "py_get (JObj d) k dflt = Inr (dict_get d k dflt)"
| "py_get v k dflt =
     Inl (PyAttributeError (squote (type_name v) @ '' object has no attribute '' @ squote ''get''))"

text \<open>\<open>v.items()\<close>.\<close>

fun py_items :: "json \<Rightarrow> exn + dict" where
  "py_items (JObj d) = Inr d"
| "py_items v =
     Inl (PyAttributeError (squote (type_name v) @ '' object has no attribute '' @ squote ''items''))"

text \<open>\<open>len(v)\<close>.\<close>

fun py_len :: "json \<Rightarrow> exn + nat" where
  "py_len (JArr xs) = Inr (length xs)"
| "py_len (JStr s) = Inr (length s)"
| "py_len (JObj d) = Inr (length d)"
| "py_len v = Inl (PyTypeError (''object of type '' @ squote (type_name v) @ '' has no len()''))"

text \<open>\<open>for x in v\<close>: a list gives its elements, a str its characters, a dict its keys.\<close>

fun py_iter :: "json \<Rightarrow> exn + json list" where
  "py_iter (JArr xs) = Inr xs"
| "py_iter (JStr s) = Inr (map (\<lambda>c. JStr [c]) s)"
| "py_iter (JObj d) = Inr (map (\<lambda>p. JStr (fst p)) d)"
| "py_iter v = Inl (PyTypeError (squote (type_name v) @ '' object is not iterable''))"

text \<open>\<open>v[0]\<close>. A dict from JSON has no key \<open>0\<close>: its keys are strings.\<close>

fun py_index0 :: "json \<Rightarrow> exn + json" where
  "py_index0 (JArr []) = Inl (PyIndexError ''list index out of range'')"
| "py_index0 (JArr (x # xs)) = Inr x"
| "py_index0 (JStr []) = Inl (PyIndexError ''string index out of range'')"
| "py_index0 (JStr (c # cs)) = Inr (JStr [c])"
| "py_index0 (JObj d) = Inl (PyKeyError ''0'')"
| "py_index0 v = Inl (PyTypeError (squote (type_name v) @ '' object is not subscriptable''))"

text \<open>\<open>str(n)\<close> for a length.\<close>

fun show_nat :: "nat \<Rightarrow> string" where
  "show_nat n =
     (if n < 10 then [''0123456789'' ! n]
      else show_nat (n div 10) @ [''0123456789'' ! (n mod 10)])"

declare show_nat.simps [simp del]

section \<open>The world outside the process\<close>

text \<open>
  Every request the code sends is a \<open>call\<close>; the trace is the list of calls sent so
  far, oldest first. The world answers a call from the trace before it and the call:
  it raises an exception or returns a value, and this is the only thing the model
  assumes of the embedding API and of the OpenSearch client. \<open>Search\<close> records the
  query document whose \<open>json.dumps\<close> text \<open>knn_search\<close> passes as the body: the
  serialisation itself is not modelled.
\<close>

datatype call =
    HttpPost string json "(string \<times> string) list"
  | IndicesExists string
  | IndicesCreate string "json option"
  | Search json string int
  | Index string "string option" json bool
  | Delete string string bool
  | Bulk "json list" bool

type_synonym trace = "call list"

text \<open>
  What \<open>requests.post\<close> returns: \<open>raise_for_status()\<close> raises an \<open>HTTPError\<close> with
  the text \<open>http_error\<close> when the status is 4xx or 5xx, and \<open>json()\<close> raises or
  returns the decoded body.
\<close>

record response =
  http_error :: "string option"
  json_body :: "exn + json"

record world =
  http_post :: "trace \<Rightarrow> call \<Rightarrow> exn + response"
  store :: "trace \<Rightarrow> call \<Rightarrow> exn + json"
  read_file :: "string \<Rightarrow> exn + string"
  split_text :: "string \<Rightarrow> exn + string list"

definition store_call :: "world \<Rightarrow> call \<Rightarrow> trace \<Rightarrow> (exn + json) \<times> trace" where
  "store_call w c tr = (store w tr c, tr @ [c])"

definition raise_for_status :: "response \<Rightarrow> exn + unit" where
  "raise_for_status r = (case http_error r of Some m \<Rightarrow> Inl (RequestsException m) | None \<Rightarrow> Inr ())"

abbreviation status_success :: "string \<times> json" where
  "status_success \<equiv> (''status'', JStr ''success'')"

abbreviation status_error :: "string \<times> json" where
  "status_error \<equiv> (''status'', JStr ''error'')"

section \<open>aos\_client.py: OpenSearchClient\<close>

text \<open>
  \<open>idx\<close> is \<open>self._index_name\<close>; \<open>self._client\<close> is the store of the world.
\<close>

fun search_documents_except :: "exn \<Rightarrow> dict" where
  "search_documents_except (OSConnectionError m) =
     [status_error, (''message'', JStr (''Connection error: '' @ m)), (''results'', JArr [])]"
| "search_documents_except (OSRequestError m) =
     [status_error, (''message'', JStr (''Invalid query: '' @ m)), (''results'', JArr [])]"
| "search_documents_except e =
     [status_error, (''message'', JStr (''Unexpected error: '' @ str_exn e)), (''results'', JArr [])]"

definition search_documents :: "world \<Rightarrow> string \<Rightarrow> json \<Rightarrow> int \<Rightarrow> trace \<Rightarrow> dict \<times> trace" where
  "search_documents w idx query size' tr =
     (case store_call w (IndicesExists idx) tr of
        (Inl e, tr1) \<Rightarrow> (search_documents_except e, tr1)
      | (Inr index_exists, tr1) \<Rightarrow>
          if \<not> truthy index_exists then
            ([status_error, (''message'', JStr (''Index '' @ idx @ '' does not exist'')),
              (''results'', JArr [])], tr1)
          else
            (case store_call w (Search query idx size') tr1 of
               (Inl e, tr2) \<Rightarrow> (search_documents_except e, tr2)
             | (Inr search_results, tr2) \<Rightarrow>
                 ([status_success, (''results'', search_results)], tr2)))"

fun write_document_except :: "exn \<Rightarrow> dict" where
  "write_document_except (OSConnectionError m) =
     [status_error, (''message'', JStr (''Connection error: '' @ m))]"
| "write_document_except (OSRequestError m) =
     [status_error, (''message'', JStr (''Invalid document: '' @ m))]"
| "write_document_except e =
     [status_error, (''message'', JStr (''Unexpected error: '' @ str_exn e))]"

text \<open>
  The body shared by \<open>write_document\<close> (with \<open>id=document_id\<close>) and
  \<open>index_document\<close> (no id): the two methods are the same statements but for the id.
\<close>

definition put_document :: "world \<Rightarrow> string \<Rightarrow> string option \<Rightarrow> dict \<Rightarrow> trace \<Rightarrow> dict \<times> trace" where
  "put_document w idx doc_id document tr =
     (case store_call w (IndicesExists idx) tr of
        (Inl e, tr1) \<Rightarrow> (write_document_except e, tr1)
      | (Inr index_exists, tr1) \<Rightarrow>
          (case (if \<not> truthy index_exists then store_call w (IndicesCreate idx None) tr1
                 else (Inr JNull, tr1)) of
             (Inl e, tr2) \<Rightarrow> (write_document_except e, tr2)
           | (Inr created, tr2) \<Rightarrow>
               (case store_call w (Index idx doc_id (JObj document) True) tr2 of
                  (Inl e, tr3) \<Rightarrow> (write_document_except e, tr3)
                | (Inr resp, tr3) \<Rightarrow> ([status_success, (''response'', resp)], tr3))))"

definition write_document :: "world \<Rightarrow> string \<Rightarrow> string \<Rightarrow> dict \<Rightarrow> trace \<Rightarrow> dict \<times> trace" where
  "write_document w idx document_id document tr = put_document w idx (Some document_id) document tr"

definition index_document :: "world \<Rightarrow> string \<Rightarrow> dict \<Rightarrow> trace \<Rightarrow> dict \<times> trace" where
  "index_document w idx document tr = put_document w idx None document tr"

fun delete_document_except :: "string \<Rightarrow> exn \<Rightarrow> dict" where
  "delete_document_except document_id (OSNotFoundError m) =
     [status_error, (''message'', JStr (''Document with ID '' @ document_id @ '' not found''))]"
| "delete_document_except document_id e =
     [status_error, (''message'', JStr (''Unexpected error: '' @ str_exn e))]"

definition delete_document :: "world \<Rightarrow> string \<Rightarrow> string \<Rightarrow> trace \<Rightarrow> dict \<times> trace" where
  "delete_document w idx document_id tr =
     (case store_call w (IndicesExists idx) tr of
        (Inl e, tr1) \<Rightarrow> (delete_document_except document_id e, tr1)
      | (Inr index_exists, tr1) \<Rightarrow>
          if \<not> truthy index_exists then
            ([status_error, (''message'', JStr (''Index '' @ idx @ '' does not exist''))], tr1)
          else
            (case store_call w (Delete idx document_id True) tr1 of
               (Inl e, tr2) \<Rightarrow> (delete_document_except document_id e, tr2)
             | (Inr resp, tr2) \<Rightarrow> ([status_success, (''response'', resp)], tr2)))"

section \<open>app.py: the query service\<close>

abbreviation EMBEDDING_API_URL :: string where
  "EMBEDDING_API_URL \<equiv> ''https://api.siliconflow.cn/v1/embeddings''"

abbreviation DEFAULT_MODEL :: string where
  "DEFAULT_MODEL \<equiv> ''Pro/BAAI/bge-m3''"

abbreviation VECTOR_FIELD :: string where
  "VECTOR_FIELD \<equiv> ''dense_vector''"

abbreviation VECTOR_DIMENSION :: nat where
  "VECTOR_DIMENSION \<equiv> 1024"

text \<open>The two handlers of \<open>generate_embedding\<close>, in the order of the source.\<close>

fun embedding_except :: "exn \<Rightarrow> dict" where
  "embedding_except (RequestsException m) =
     [status_error, (''message'', JStr (''API request failed: '' @ m))]"
| "embedding_except e =
     [status_error, (''message'', JStr (''Unexpected error: '' @ str_exn e))]"

text \<open>\<open>result.get("data", [{}])[0].get("embedding", [])\<close>.\<close>

definition embedding_of_result :: "json \<Rightarrow> exn + json" where
  "embedding_of_result result =
     (case py_get result ''data'' (JArr [JObj []]) of
        Inl e \<Rightarrow> Inl e
      | Inr data \<Rightarrow>
          (case py_index0 data of
             Inl e \<Rightarrow> Inl e
           | Inr first \<Rightarrow> py_get first ''embedding'' (JArr [])))"

text \<open>
  The \<open>try\<close> statement of \<open>generate_embedding\<close>: app.py (lines 45 to 72) and
  embedding.py (lines 28 to 55) have the same statements, the token being the module's
  \<open>embedding_api_token\<close> in the first and \<open>self.api_token\<close> in the second. One
  \<open>requests.post\<close> is sent, and whatever it, \<open>raise_for_status\<close>, \<open>json\<close> or the
  extraction raises goes to the handlers.
\<close>

definition model_name :: "string option \<Rightarrow> string" where
  "model_name model = (case model of Some m \<Rightarrow> if m \<noteq> [] then m else DEFAULT_MODEL
                                   | None \<Rightarrow> DEFAULT_MODEL)"

definition embedding_post :: "string \<Rightarrow> json \<Rightarrow> string option \<Rightarrow> call" where
  "embedding_post token text model =
     HttpPost EMBEDDING_API_URL
       (JObj [(''model'', JStr (model_name model)), (''input'', text),
              (''encoding_format'', JStr ''float'')])
       [(''Authorization'', ''Bearer '' @ token), (''Content-Type'', ''application/json'')]"

definition embedding_try :: "world \<Rightarrow> string \<Rightarrow> json \<Rightarrow> string option \<Rightarrow> trace \<Rightarrow> dict \<times> trace" where
  "embedding_try w token text model tr =
     (let c = embedding_post token text model
      in (case http_post w tr c of
            Inl e \<Rightarrow> (embedding_except e, tr @ [c])
          | Inr r \<Rightarrow>
              (case raise_for_status r of
                 Inl e \<Rightarrow> (embedding_except e, tr @ [c])
               | Inr u \<Rightarrow>
                   (case json_body r of
                      Inl e \<Rightarrow> (embedding_except e, tr @ [c])
                    | Inr result \<Rightarrow>
                        (case embedding_of_result result of
                           Inl e \<Rightarrow> (embedding_except e, tr @ [c])
                         | Inr emb \<Rightarrow>
                             ([status_success, (''embedding'', emb),
                               (''model'', JStr (model_name model))], tr @ [c]))))))"

abbreviation no_token_error :: dict where
  "no_token_error \<equiv>
     [status_error, (''message'', JStr ''API token not configured for embedding service'')]"

text \<open>app.py: \<open>embedding_api_token\<close> is a string of the environment (\<open>''\<close> when unset).\<close>

definition generate_embedding :: "world \<Rightarrow> string \<Rightarrow> string \<Rightarrow> string option \<Rightarrow> trace \<Rightarrow> dict \<times> trace" where
  "generate_embedding w embedding_api_token text model tr =
     (if embedding_api_token = [] then (no_token_error, tr)
      else embedding_try w embedding_api_token (JStr text) model tr)"

fun simplify_hit :: "json \<Rightarrow> exn + json" where
  "simplify_hit hit =
     (case py_get hit ''_source'' (JObj []) of
        Inl e \<Rightarrow> Inl e
      | Inr source \<Rightarrow>
          (case py_get hit ''_id'' JNull of
             Inl e \<Rightarrow> Inl e
           | Inr hit_id \<Rightarrow>
               (case py_get hit ''_score'' JNull of
                  Inl e \<Rightarrow> Inl e
                | Inr hit_score \<Rightarrow>
                    (case py_get source ''text'' (JStr []) of
                       Inl e \<Rightarrow> Inl e
                     | Inr text \<Rightarrow>
                         (case py_items source of
                            Inl e \<Rightarrow> Inl e
                          | Inr items \<Rightarrow>
                              Inr (JObj [(''id'', hit_id), (''score'', hit_score), (''text'', text),
                                         (''metadata'',
                                          JObj (filter (\<lambda>p. fst p \<noteq> ''text'' \<and> fst p \<noteq> VECTOR_FIELD)
                                                  items))]))))))"

text \<open>The \<open>for hit in hits\<close> loop: the first hit that raises ends it.\<close>

fun simplify_hits :: "json list \<Rightarrow> exn + json list" where
  "simplify_hits [] = Inr []"
| "simplify_hits (hit # hits) =
     (case simplify_hit hit of
        Inl e \<Rightarrow> Inl e
      | Inr r \<Rightarrow>
          (case simplify_hits hits of
             Inl e \<Rightarrow> Inl e
           | Inr rs \<Rightarrow> Inr (r # rs)))"

definition knn_query :: "json \<Rightarrow> int \<Rightarrow> json" where
  "knn_query vector k =
     JObj [(''size'', JInt k),
           (''query'', JObj [(''knn'', JObj [(VECTOR_FIELD, JObj [(''vector'', vector), (''k'', JInt k)])])]),
           (''_source'', JObj [(''excludes'', JArr [JStr VECTOR_FIELD])])]"

definition knn_search_except :: "exn \<Rightarrow> dict" where
  "knn_search_except e = [status_error, (''message'', JStr (''kNN search error: '' @ str_exn e))]"

text \<open>Lines 105 to 124 of app.py: what \<open>knn_search\<close> makes of the client's result.\<close>

definition knn_results :: "dict \<Rightarrow> exn + dict" where
  "knn_results result =
     (case dict_item result ''status'' of
        Inl e \<Rightarrow> Inl e
      | Inr st \<Rightarrow>
          if st = JStr ''success'' \<and> dict_has result ''results'' then
            (case dict_item result ''results'' of
               Inl e \<Rightarrow> Inl e
             | Inr res \<Rightarrow>
                 (case py_get res ''hits'' (JObj []) of
                    Inl e \<Rightarrow> Inl e
                  | Inr outer \<Rightarrow>
                      (case py_get outer ''hits'' (JArr []) of
                         Inl e \<Rightarrow> Inl e
                       | Inr hits \<Rightarrow>
                           (case py_iter hits of
                              Inl e \<Rightarrow> Inl e
                            | Inr hs \<Rightarrow>
                                (case simplify_hits hs of
                                   Inl e \<Rightarrow> Inl e
                                 | Inr simplified_results \<Rightarrow>
                                     Inr [status_success,
                                          (''results'', JArr simplified_results),
                                          (''total'', JInt (int (length simplified_results)))])))))
          else Inr result)"

definition knn_search :: "world \<Rightarrow> string \<Rightarrow> json \<Rightarrow> int \<Rightarrow> trace \<Rightarrow> dict \<times> trace" where
  "knn_search w idx vector k tr =
     (case py_len vector of
        Inl e \<Rightarrow> (knn_search_except e, tr)
      | Inr n \<Rightarrow>
          if n \<noteq> VECTOR_DIMENSION then
            ([status_error,
              (''message'', JStr (''Vector dimension mismatch. Expected '' @ show_nat VECTOR_DIMENSION
                                   @ '', got '' @ show_nat n))], tr)
          else
            (case search_documents w idx (knn_query vector k) k tr of
               (result, tr1) \<Rightarrow>
                 (case knn_results result of
                    Inl e \<Rightarrow> (knn_search_except e, tr1)
                  | Inr d \<Rightarrow> (d, tr1))))"

text \<open>
  The list comprehension of \<open>text_similarity_search\<close>: \<open>result.get("score", 0) > score\<close>
  on each result in turn; the first comparison that raises ends it.
\<close>

fun filter_by_score :: "json list \<Rightarrow> pyfloat \<Rightarrow> exn + json list" where
  "filter_by_score [] score = Inr []"
| "filter_by_score (r # rs) score =
     (case py_get r ''score'' (JInt 0) of
        Inl e \<Rightarrow> Inl e
      | Inr v \<Rightarrow>
          (case py_gt v score of
             Inl e \<Rightarrow> Inl e
           | Inr keep \<Rightarrow>
               (case filter_by_score rs score of
                  Inl e \<Rightarrow> Inl e
                | Inr out \<Rightarrow> Inr (if keep then r # out else out))))"

text \<open>
  \<open>text_similarity_search\<close> has no \<open>try\<close> (the \<open>finally\<close> only closes the event loop):
  what \<open>_similarity_search\<close> raises, the tool raises.
\<close>

definition text_similarity_search ::
    "world \<Rightarrow> string \<Rightarrow> string \<Rightarrow> string \<Rightarrow> int \<Rightarrow> pyfloat \<Rightarrow> trace \<Rightarrow> (exn + dict) \<times> trace" where
  "text_similarity_search w embedding_api_token idx text k score tr =
     (case generate_embedding w embedding_api_token text None tr of
        (embedding_result, tr1) \<Rightarrow>
          (case dict_item embedding_result ''status'' of
             Inl e \<Rightarrow> (Inl e, tr1)
           | Inr st \<Rightarrow>
               if st \<noteq> JStr ''success'' then (Inr embedding_result, tr1)
               else
                 (case dict_item embedding_result ''embedding'' of
                    Inl e \<Rightarrow> (Inl e, tr1)
                  | Inr emb \<Rightarrow>
                      (case knn_search w idx emb k tr1 of
                         (search_result, tr2) \<Rightarrow>
                           (case dict_item search_result ''status'' of
                              Inl e \<Rightarrow> (Inl e, tr2)
                            | Inr st2 \<Rightarrow>
                                if st2 = JStr ''success'' then
                                  (case dict_item search_result ''results'' of
                                     Inl e \<Rightarrow> (Inl e, tr2)
                                   | Inr rs \<Rightarrow>
                                       (case py_iter rs of
                                          Inl e \<Rightarrow> (Inl e, tr2)
                                        | Inr rl \<Rightarrow>
                                            (case filter_by_score rl score of
                                               Inl e \<Rightarrow> (Inl e, tr2)
                                             | Inr filtered_results \<Rightarrow>
                                                 (Inr [status_success,
                                                       (''query_text'', JStr text),
                                                       (''results'', JArr filtered_results),
                                                       (''total'', JInt (int (length filtered_results))),
                                                       (''score_threshold'', JFloat score),
                                                       (''original_total'',
                                                        dict_get search_result ''total'' (JInt 0))],
                                                  tr2))))
                                else (Inr search_result, tr2))))))"

section \<open>embedding.py: EmbeddingTools\<close>

text \<open>
  \<open>api_token\<close> is \<open>self.api_token\<close> (\<open>None\<close> by default), \<open>idx\<close> is
  \<open>self.aos_client._index_name\<close>, and \<open>self.vector_field\<close> is \<open>"dense_vector"\<close>.
  The text handed to the API is \<open>doc[text_field]\<close>, of any type.
\<close>

definition EmbeddingTools_generate_embedding ::
    "world \<Rightarrow> string option \<Rightarrow> json \<Rightarrow> string option \<Rightarrow> trace \<Rightarrow> dict \<times> trace" where
  "EmbeddingTools_generate_embedding w api_token text model tr =
     (case api_token of
        None \<Rightarrow> (no_token_error, tr)
      | Some token \<Rightarrow>
          if token = [] then (no_token_error, tr)
          else embedding_try w token text model tr)"

text \<open>
  The first loop of \<open>bulk_index_with_embeddings\<close>, with its two accumulators. A
  document without the text field, or whose embedding is not a success, is appended to
  \<open>failed_docs\<close> with its reason and the loop goes on.
\<close>

fun embed_documents ::
    "world \<Rightarrow> string option \<Rightarrow> string \<Rightarrow> dict list \<Rightarrow> dict list \<Rightarrow> json list \<Rightarrow> trace
      \<Rightarrow> (exn + dict list \<times> json list) \<times> trace" where
  "embed_documents w api_token text_field [] processed_docs failed_docs tr =
     (Inr (processed_docs, failed_docs), tr)"
| "embed_documents w api_token text_field (doc # documents) processed_docs failed_docs tr =
     (if \<not> dict_has doc text_field then
        embed_documents w api_token text_field documents processed_docs
          (failed_docs @ [JObj [(''doc'', JObj doc),
                                (''reason'', JStr (''Missing text field '' @ squote text_field))]]) tr
      else
        (case dict_item doc text_field of
           Inl e \<Rightarrow> (Inl e, tr)
         | Inr text \<Rightarrow>
             (case EmbeddingTools_generate_embedding w api_token text None tr of
                (embedding_result, tr1) \<Rightarrow>
                  (case dict_item embedding_result ''status'' of
                     Inl e \<Rightarrow> (Inl e, tr1)
                   | Inr st \<Rightarrow>
                       if st \<noteq> JStr ''success'' then
                         (case dict_item embedding_result ''message'' of
                            Inl e \<Rightarrow> (Inl e, tr1)
                          | Inr reason \<Rightarrow>
                              embed_documents w api_token text_field documents processed_docs
                                (failed_docs @ [JObj [(''doc'', JObj doc), (''reason'', reason)]]) tr1)
                       else
                         (case dict_item embedding_result ''embedding'' of
                            Inl e \<Rightarrow> (Inl e, tr1)
                          | Inr emb \<Rightarrow>
                              embed_documents w api_token text_field documents
                                (processed_docs @ [dict_set doc VECTOR_FIELD emb]) failed_docs tr1)))))"

text \<open>
  The second loop: an action header and the document for each processed document, the
  \<open>_id\<close> moved from the document to the header when there is one.
\<close>

fun bulk_data :: "string \<Rightarrow> dict list \<Rightarrow> json list" where
  "bulk_data idx [] = []"
| "bulk_data idx (doc # docs) =
     (if dict_has doc ''_id'' then
        [JObj [(''index'', JObj [(''_index'', JStr idx), (''_id'', dict_get doc ''_id'' JNull)])],
         JObj (dict_pop doc ''_id'')]
      else
        [JObj [(''index'', JObj [(''_index'', JStr idx)])], JObj doc])
     @ bulk_data idx docs"

definition bulk_except :: "exn \<Rightarrow> dict" where
  "bulk_except e = [status_error, (''message'', JStr (''Bulk indexing error: '' @ str_exn e))]"

definition bulk_index_with_embeddings ::
    "world \<Rightarrow> string option \<Rightarrow> string \<Rightarrow> dict list \<Rightarrow> string \<Rightarrow> trace \<Rightarrow> dict \<times> trace" where
  "bulk_index_with_embeddings w api_token idx documents text_field tr =
     (case embed_documents w api_token text_field documents [] [] tr of
        (Inl e, tr1) \<Rightarrow> (bulk_except e, tr1)
      | (Inr (processed_docs, failed_docs), tr1) \<Rightarrow>
          if processed_docs = [] then
            ([status_error, (''message'', JStr ''No documents were processed successfully''),
              (''failed_docs'', JArr failed_docs)], tr1)
          else
            (case store_call w (Bulk (bulk_data idx processed_docs) True) tr1 of
               (Inl e, tr2) \<Rightarrow> (bulk_except e, tr2)
             | (Inr resp, tr2) \<Rightarrow>
                 ([status_success, (''response'', resp),
                   (''processed_count'', JInt (int (length processed_docs))),
                   (''failed_count'', JInt (int (length failed_docs))),
                   (''failed_docs'', if failed_docs \<noteq> [] then JArr failed_docs else JNull)], tr2)))"

section \<open>doc\_ingest.py: DocumentIngestor\<close>

definition mapping :: json where
  "mapping =
     JObj [(''settings'',
            JObj [(''index'',
                   JObj [(''number_of_shards'', JInt 1),
                         (''number_of_replicas'', JInt 0),
                         (''refresh_interval'', JStr ''60s''),
                         (''knn'', JBool True),
                         (''knn.algo_param.ef_search'', JInt 32)])]),
           (''mappings'',
            JObj [(''properties'',
                   JObj [(''dense_vector'',
                          JObj [(''type'', JStr ''knn_vector''),
                                (''dimension'', JInt 1024),
                                (''method'',
                                 JObj [(''name'', JStr ''hnsw''),
                                       (''space_type'', JStr ''innerproduct''),
                                       (''engine'', JStr ''faiss''),
                                       (''parameters'',
                                        JObj [(''ef_construction'', JInt 32), (''m'', JInt 16)])])]),
                         (''text'', JObj [(''type'', JStr ''text'')]),
                         (''metadata'', JObj [(''type'', JStr ''object'')])])])]"

text \<open>
  \<open>create_index_if_not_exists\<close> has no \<open>try\<close>: what the client raises, it raises.
  The log lines have no effect on the result and are left out.
\<close>

definition create_index_if_not_exists :: "world \<Rightarrow> string \<Rightarrow> trace \<Rightarrow> (exn + unit) \<times> trace" where
  "create_index_if_not_exists w idx tr =
     (case store_call w (IndicesExists idx) tr of
        (Inl e, tr1) \<Rightarrow> (Inl e, tr1)
      | (Inr index_exists, tr1) \<Rightarrow>
          if \<not> truthy index_exists then
            (case store_call w (IndicesCreate idx (Some mapping)) tr1 of
               (Inl e, tr2) \<Rightarrow> (Inl e, tr2)
             | (Inr created, tr2) \<Rightarrow> (Inr (), tr2))
          else (Inr (), tr1))"

text \<open>\<open>os.path.basename\<close> of \<open>posixpath\<close>: what follows the last slash.\<close>

definition basename :: "string \<Rightarrow> string" where
  "basename p = rev (takeWhile (\<lambda>c. c \<noteq> CHR ''/'') (rev p))"

text \<open>
  Lines 190 to 205 of \<open>process_file\<close>: \<open>metadata or {}\<close>, the two keys set on it, and
  one document for each chunk of \<open>enumerate(chunks)\<close>.
\<close>

definition base_metadata :: "string \<Rightarrow> dict option \<Rightarrow> dict" where
  "base_metadata file_path metadata =
     dict_set
       (dict_set (case metadata of Some m \<Rightarrow> if m \<noteq> [] then m else [] | None \<Rightarrow> [])
          ''source'' (JStr file_path))
       ''filename'' (JStr (basename file_path))"

definition chunk_doc :: "dict \<Rightarrow> nat \<Rightarrow> nat \<Rightarrow> string \<Rightarrow> dict" where
  "chunk_doc base n i chunk =
     [(''text'', JStr chunk),
      (''metadata'',
       JObj (dict_set (dict_set base ''chunk_index'' (JInt (int i))) ''chunk_count'' (JInt (int n))))]"

definition chunk_documents :: "string \<Rightarrow> dict option \<Rightarrow> string list \<Rightarrow> dict list" where
  "chunk_documents file_path metadata chunks =
     map (\<lambda>p. chunk_doc (base_metadata file_path metadata) (length chunks) (fst p) (snd p))
       (enumerate 0 chunks)"

definition process_file_except :: "exn \<Rightarrow> dict" where
  "process_file_except e = [status_error, (''message'', JStr (str_exn e))]"

text \<open>
  \<open>process_file\<close>: the index, the file, the splitter, the documents, the bulk index.
  The two log lines after the bulk index read \<open>result['processed_count']\<close> or
  \<open>result['message']\<close> and so are kept.
\<close>

definition process_file ::
    "world \<Rightarrow> string option \<Rightarrow> string \<Rightarrow> string \<Rightarrow> dict option \<Rightarrow> trace \<Rightarrow> dict \<times> trace" where
  "process_file w api_token idx file_path metadata tr =
     (case create_index_if_not_exists w idx tr of
        (Inl e, tr1) \<Rightarrow> (process_file_except e, tr1)
      | (Inr u, tr1) \<Rightarrow>
          (case read_file w file_path of
             Inl e \<Rightarrow> (process_file_except e, tr1)
           | Inr text \<Rightarrow>
               (case split_text w text of
                  Inl e \<Rightarrow> (process_file_except e, tr1)
                | Inr chunks \<Rightarrow>
                    (case bulk_index_with_embeddings w api_token idx
                            (chunk_documents file_path metadata chunks) ''text'' tr1 of
                       (result, tr2) \<Rightarrow>
                         (case dict_item result ''status'' of
                            Inl e \<Rightarrow> (process_file_except e, tr2)
                          | Inr st \<Rightarrow>
                              (case dict_item result
                                      (if st = JStr ''success'' then ''processed_count''
                                       else ''message'') of
                                 Inl e \<Rightarrow> (process_file_except e, tr2)
                               | Inr logged \<Rightarrow> (result, tr2)))))))"

section \<open>An OpenSearch that is reachable and keeps its indices\<close>

text \<open>
  For the claims about what happens over several calls, a store that answers every
  request and remembers the indices created: an index exists when it existed at the
  start (\<open>init\<close>) or a create for it stands in the trace, and creating an index that
  exists is refused with a \<open>RequestError\<close> (HTTP 400, resource already exists), as
  OpenSearch does.
\<close>

fun creates :: "string \<Rightarrow> call \<Rightarrow> bool" where
  "creates i (IndicesCreate j b) = (i = j)"
| "creates i c = False"

definition index_present :: "string list \<Rightarrow> trace \<Rightarrow> string \<Rightarrow> bool" where
  "index_present init tr i = (i \<in> set init \<or> list_ex (creates i) tr)"

fun honest_store :: "string list \<Rightarrow> trace \<Rightarrow> call \<Rightarrow> exn + json" where
  "honest_store init tr (IndicesExists i) = Inr (JBool (index_present init tr i))"
| "honest_store init tr (IndicesCreate i b) =
     (if index_present init tr i then Inl (OSRequestError ''resource_already_exists_exception'')
      else Inr (JObj [(''acknowledged'', JBool True), (''index'', JStr i)]))"
| "honest_store init tr c = Inr JNull"

section \<open>Notions used in the statements\<close>

text \<open>
  The uniform result: a \<open>status\<close> that is \<open>success\<close>, or \<open>error\<close> with a
  \<open>message\<close>.
\<close>

definition uniform_result :: "dict \<Rightarrow> bool" where
  "uniform_result d =
     (dict_item d ''status'' = Inr (JStr ''success'')
      \<or> (dict_item d ''status'' = Inr (JStr ''error'') \<and> dict_has d ''message''))"

text \<open>The value at a path of keys in a document.\<close>

fun json_path :: "json \<Rightarrow> string list \<Rightarrow> json option" where
  "json_path v [] = Some v"
| "json_path (JObj d) (k # ks) = (case map_of d k of Some v \<Rightarrow> json_path v ks | None \<Rightarrow> None)"
| "json_path v (k # ks) = None"

text \<open>A result whose score is a number strictly above the threshold.\<close>

definition score_above :: "pyfloat \<Rightarrow> json \<Rightarrow> bool" where
  "score_above s r =
     (case py_get r ''score'' (JInt 0) of
        Inl e \<Rightarrow> False
      | Inr v \<Rightarrow> (case as_number v of Some f \<Rightarrow> float_gt f s | None \<Rightarrow> False))"

text \<open>
  Which documents of a batch are embedded successfully, in the words of the
  specification: a document succeeds when it has the text field and the embedding
  provider, asked at its turn, answers with status \<open>success\<close>. The requests are sent
  one after the other, so each turn starts from the trace the turn before left.
\<close>

fun embedded_ok :: "world \<Rightarrow> string option \<Rightarrow> string \<Rightarrow> dict list \<Rightarrow> trace \<Rightarrow> bool list" where
  "embedded_ok w api_token text_field [] tr = []"
| "embedded_ok w api_token text_field (doc # documents) tr =
     (if \<not> dict_has doc text_field then False # embedded_ok w api_token text_field documents tr
      else
        (case EmbeddingTools_generate_embedding w api_token (dict_get doc text_field JNull) None tr of
           (embedding_result, tr1) \<Rightarrow>
             (dict_get embedding_result ''status'' JNull = JStr ''success'')
             # embedded_ok w api_token text_field documents tr1))"

text \<open>The documents of a batch whose flag is \<open>b\<close>, in the order of the batch.\<close>

definition flagged :: "bool \<Rightarrow> bool list \<Rightarrow> 'a list \<Rightarrow> 'a list" where
  "flagged b flags xs = map snd (filter (\<lambda>p. fst p = b) (zip flags xs))"

text \<open>The calls of a trace that create an index.\<close>

fun is_create :: "call \<Rightarrow> bool" where
  "is_create (IndicesCreate i b) = True"
| "is_create c = False"

text \<open>The calls of a trace that go to the store (all but the HTTP requests).\<close>

fun is_store_call :: "call \<Rightarrow> bool" where
  "is_store_call (HttpPost u p h) = False"
| "is_store_call c = True"

section \<open>Worlds for the examples\<close>

text \<open>
  A vector of the configured dimension, an embedding API that refuses the texts of
  \<open>bad\<close> and answers every other request with that vector, and a store with one
  index that holds the documents \<open>ids\<close>, answers a search with \<open>found\<close> and a bulk
  request with \<open>bulk\<close>; deleting an id it does not hold raises \<open>NotFoundError\<close>.
\<close>

definition vec1024 :: json where
  "vec1024 = JArr (replicate 1024 (JFloat (Finite 0)))"

definition body_response :: "json \<Rightarrow> exn + response" where
  "body_response body = Inr \<lparr>http_error = None, json_body = Inr body\<rparr>"

fun embedding_api :: "string list \<Rightarrow> trace \<Rightarrow> call \<Rightarrow> exn + response" where
  "embedding_api bad tr (HttpPost url payload headers) =
     (case json_path payload [''input''] of
        Some (JStr t) \<Rightarrow>
          if t \<in> set bad then Inl (RequestsException ''503 Server Error'')
          else body_response (JObj [(''data'', JArr [JObj [(''embedding'', vec1024)]])])
      | Some v \<Rightarrow> Inl (RequestsException ''400 Client Error'')
      | None \<Rightarrow> Inl (RequestsException ''400 Client Error''))"
| "embedding_api bad tr c = Inl (OtherException ''not an HTTP request'')"

fun kb_store :: "string list \<Rightarrow> json \<Rightarrow> exn + json \<Rightarrow> trace \<Rightarrow> call \<Rightarrow> exn + json" where
  "kb_store ids found bulk tr (IndicesExists i) = Inr (JBool True)"
| "kb_store ids found bulk tr (Delete i d r) =
     (if d \<in> set ids then Inr (JObj [(''result'', JStr ''deleted'')])
      else Inl (OSNotFoundError ''NotFoundError(404)''))"
| "kb_store ids found bulk tr (Search q i n) = Inr found"
| "kb_store ids found bulk tr (Bulk b r) = bulk"
| "kb_store ids found bulk tr c = Inr JNull"

definition example_world ::
    "(trace \<Rightarrow> call \<Rightarrow> exn + response) \<Rightarrow> (trace \<Rightarrow> call \<Rightarrow> exn + json) \<Rightarrow> world" where
  "example_world api st =
     \<lparr>http_post = api, store = st,
      read_file = (\<lambda>p. Inr ''alpha beta''),
      split_text = (\<lambda>t. Inr [''alpha'', ''beta''])\<rparr>"

definition example_hits :: json where
  "example_hits =
     JObj [(''hits'',
            JObj [(''hits'',
                   JArr [JObj [(''_id'', JStr ''a''), (''_score'', JFloat (Finite (9 / 10))),
                               (''_source'', JObj [(''text'', JStr ''alpha''),
                                                   (''filename'', JStr ''f.txt'')])],
                         JObj [(''_id'', JStr ''b''), (''_score'', JFloat (Finite (1 / 2))),
                               (''_source'', JObj [(''text'', JStr ''beta'')])]])])]"

section \<open>Facts about the model\<close>

lemma show_nat_1024: "show_nat 1024 = ''1024''"
  by code_simp

lemma show_nat_512: "show_nat 512 = ''512''"
  by code_simp

lemma show_nat_0: "show_nat 0 = ''0''"
  by code_simp

lemma py_len_vec1024: "py_len vec1024 = Inr 1024"
  by (simp add: vec1024_def)

subsection \<open>The gateway\<close>

lemma uniform_search_except: "uniform_result (search_documents_except e)"
  by (cases e) (simp_all add: uniform_result_def dict_item_def dict_has_def)

lemma uniform_write_except: "uniform_result (write_document_except e)"
  by (cases e) (simp_all add: uniform_result_def dict_item_def dict_has_def)

lemma uniform_delete_except: "uniform_result (delete_document_except i e)"
  by (cases e) (simp_all add: uniform_result_def dict_item_def dict_has_def)

lemma uniform_search: "uniform_result (fst (search_documents w idx query k tr))"
  by (simp add: search_documents_def store_call_def uniform_search_except split: sum.splits)
     (simp add: uniform_result_def dict_item_def dict_has_def)

lemma uniform_put: "uniform_result (fst (put_document w idx i document tr))"
  by (simp add: put_document_def store_call_def uniform_write_except split: sum.splits)
     (simp add: uniform_result_def dict_item_def dict_has_def)

lemma uniform_delete: "uniform_result (fst (delete_document w idx i tr))"
  by (simp add: delete_document_def store_call_def uniform_delete_except split: sum.splits)
     (simp add: uniform_result_def dict_item_def dict_has_def)

lemma search_except_status: "dict_item (search_documents_except e) ''status'' = Inr (JStr ''error'')"
  by (cases e) (simp_all add: dict_item_def)

text \<open>A search either reaches the store and succeeds, or its status is \<open>error\<close>.\<close>

lemma search_documents_cases:
  "(\<exists>reply. store w (tr @ [IndicesExists idx]) (Search query idx k) = Inr reply
      \<and> search_documents w idx query k tr =
          ([status_success, (''results'', reply)], tr @ [IndicesExists idx, Search query idx k]))
   \<or> dict_item (fst (search_documents w idx query k tr)) ''status'' = Inr (JStr ''error'')"
  by (simp add: search_documents_def store_call_def search_except_status split: sum.splits)
     (simp add: dict_item_def)

subsection \<open>The k-NN search\<close>

lemma knn_results_error:
  "dict_item result ''status'' = Inr (JStr ''error'') \<Longrightarrow> knn_results result = Inr result"
  by (simp add: knn_results_def)

text \<open>What a successful \<open>knn_search\<close> went through.\<close>

lemma knn_search_success:
  assumes "dict_item (fst (knn_search w idx vector k tr)) ''status'' = Inr (JStr ''success'')"
  shows "\<exists>reply outer hv hits rs.
           py_len vector = Inr 1024
         \<and> store w (tr @ [IndicesExists idx]) (Search (knn_query vector k) idx k) = Inr reply
         \<and> py_get reply ''hits'' (JObj []) = Inr outer
         \<and> py_get outer ''hits'' (JArr []) = Inr hv
         \<and> py_iter hv = Inr hits
         \<and> simplify_hits hits = Inr rs
         \<and> knn_search w idx vector k tr =
             ([status_success, (''results'', JArr rs), (''total'', JInt (int (length rs)))],
              tr @ [IndicesExists idx, Search (knn_query vector k) idx k])"
proof -
  from assms obtain n where len: "py_len vector = Inr n"
    by (cases "py_len vector") (auto simp: knn_search_def knn_search_except_def dict_item_def)
  with assms have n: "n = 1024"
    by (auto simp: knn_search_def dict_item_def split: if_splits)
  let ?q = "knn_query vector k"
  from search_documents_cases [of w tr idx ?q k]
  show ?thesis
  proof
    assume "\<exists>reply. store w (tr @ [IndicesExists idx]) (Search ?q idx k) = Inr reply
      \<and> search_documents w idx ?q k tr =
          ([status_success, (''results'', reply)], tr @ [IndicesExists idx, Search ?q idx k])"
    then obtain reply where
      r: "store w (tr @ [IndicesExists idx]) (Search ?q idx k) = Inr reply" and
      s: "search_documents w idx ?q k tr =
          ([status_success, (''results'', reply)], tr @ [IndicesExists idx, Search ?q idx k])"
      by blast
    from assms len n s show ?thesis
      by (auto simp: knn_search_def knn_results_def knn_search_except_def dict_item_def dict_has_def r
               split: sum.splits)
  next
    assume e: "dict_item (fst (search_documents w idx ?q k tr)) ''status'' = Inr (JStr ''error'')"
    obtain res tr1 where s: "search_documents w idx ?q k tr = (res, tr1)"
      by (cases "search_documents w idx ?q k tr")
    with e have "knn_results res = Inr res" by (simp add: knn_results_error)
    with assms len n s e show ?thesis by (simp add: knn_search_def)
  qed
qed

lemma simplify_hits_length: "simplify_hits hs = Inr rs \<Longrightarrow> length rs = length hs"
  by (induction hs arbitrary: rs) (auto split: sum.splits)

lemma simplify_hits_nth:
  "simplify_hits hs = Inr rs \<Longrightarrow> i < length hs \<Longrightarrow> simplify_hit (hs ! i) = Inr (rs ! i)"
proof (induction hs arbitrary: rs i)
  case Nil
  then show ?case by simp
next
  case (Cons h hs)
  from Cons.prems(1) obtain r rs' where
    h: "simplify_hit h = Inr r" and t: "simplify_hits hs = Inr rs'" and rs: "rs = r # rs'"
    by (auto simp del: simplify_hit.simps split: sum.splits)
  show ?case
  proof (cases i)
    case 0
    with h rs show ?thesis by (simp del: simplify_hit.simps)
  next
    case (Suc j)
    with Cons.prems(2) have "j < length hs" by simp
    from Cons.IH [OF t this] Suc rs show ?thesis by (simp del: simplify_hit.simps)
  qed
qed

lemma simplify_hit_shape:
  assumes "simplify_hit hit = Inr r"
  shows "\<exists>h src. hit = JObj h \<and> dict_get h ''_source'' (JObj []) = JObj src
           \<and> r = JObj [(''id'', dict_get h ''_id'' JNull), (''score'', dict_get h ''_score'' JNull),
                       (''text'', dict_get src ''text'' (JStr [])),
                       (''metadata'',
                        JObj (filter (\<lambda>p. fst p \<noteq> ''text'' \<and> fst p \<noteq> ''dense_vector'') src))]"
proof (cases hit)
  case (JObj h)
  show ?thesis
  proof (cases "dict_get h ''_source'' (JObj [])")
    case (JObj src)
    with \<open>hit = JObj h\<close> assms show ?thesis by auto
  qed (use \<open>hit = JObj h\<close> assms in auto)
qed (use assms in auto)

lemma map_of_filter_keys:
  "map_of (filter (\<lambda>p. fst p \<noteq> a \<and> fst p \<noteq> b) d) k = (if k = a \<or> k = b then None else map_of d k)"
  by (induction d) auto

subsection \<open>The score filter\<close>

lemma float_gt_not_le: "float_gt a b \<Longrightarrow> \<not> float_le a b"
  by (cases a; cases b) auto

lemma score_above_py_gt:
  "py_get r ''score'' (JInt 0) = Inr v \<Longrightarrow> py_gt v s = Inr keep \<Longrightarrow> score_above s r = keep"
  by (auto simp: score_above_def py_gt_def split: option.splits)

lemma filter_by_score_filter:
  "filter_by_score rs s = Inr out \<Longrightarrow> out = filter (score_above s) rs"
proof (induction rs arbitrary: out)
  case Nil
  then show ?case by simp
next
  case (Cons r rs)
  from Cons.prems obtain v keep out' where
    v: "py_get r ''score'' (JInt 0) = Inr v" and k: "py_gt v s = Inr keep" and
    t: "filter_by_score rs s = Inr out'" and o: "out = (if keep then r # out' else out')"
    by (auto split: sum.splits)
  from Cons.IH [OF t] score_above_py_gt [OF v k] o show ?case by simp
qed

lemma score_above_iff:
  "score_above s r \<longleftrightarrow>
     (\<exists>v f. py_get r ''score'' (JInt 0) = Inr v \<and> as_number v = Some f \<and> float_gt f s)"
  by (auto simp: score_above_def split: sum.splits option.splits)

subsection \<open>The embedding request\<close>

lemma embedding_except_status: "dict_item (embedding_except e) ''status'' = Inr (JStr ''error'')"
  by (cases e) (simp_all add: dict_item_def)

lemma embedding_try_trace:
  "snd (embedding_try w token t model tr) = tr @ [embedding_post token t model]"
  by (simp add: embedding_try_def Let_def split: sum.splits)

lemma embedding_try_cases:
  "(\<exists>emb. embedding_try w token t model tr =
            ([status_success, (''embedding'', emb), (''model'', JStr (model_name model))],
             tr @ [embedding_post token t model]))
   \<or> dict_item (fst (embedding_try w token t model tr)) ''status'' = Inr (JStr ''error'')"
  by (simp add: embedding_try_def Let_def embedding_except_status split: sum.splits)

lemma generate_embedding_cases:
  "(\<exists>emb. embedding_api_token \<noteq> [] \<and> generate_embedding w embedding_api_token t model tr =
            ([status_success, (''embedding'', emb), (''model'', JStr (model_name model))],
             tr @ [embedding_post embedding_api_token (JStr t) model]))
   \<or> dict_item (fst (generate_embedding w embedding_api_token t model tr)) ''status''
       = Inr (JStr ''error'')"
  using embedding_try_cases [of w embedding_api_token "JStr t" model tr]
  by (auto simp: generate_embedding_def dict_item_def)

text \<open>The example search, evaluated.\<close>

lemma example_search:
  "text_similarity_search (example_world (embedding_api []) (kb_store [] example_hits (Inr JNull)))
      ''token'' ''kb'' ''query'' 10 (Finite (1 / 2)) [] =
   (Inr [status_success, (''query_text'', JStr ''query''),
         (''results'', JArr [JObj [(''id'', JStr ''a''), (''score'', JFloat (Finite (9 / 10))),
                                   (''text'', JStr ''alpha''),
                                   (''metadata'', JObj [(''filename'', JStr ''f.txt'')])]]),
         (''total'', JInt 1), (''score_threshold'', JFloat (Finite (1 / 2))),
         (''original_total'', JInt 2)],
    [embedding_post ''token'' (JStr ''query'') None, IndicesExists ''kb'',
     Search (knn_query vec1024 10) ''kb'' 10])"
  by (simp add: text_similarity_search_def generate_embedding_def embedding_try_def
        embedding_post_def model_name_def example_world_def body_response_def raise_for_status_def
        embedding_of_result_def dict_get_def dict_item_def knn_search_def py_len_vec1024
        search_documents_def store_call_def knn_results_def dict_has_def example_hits_def
        py_gt_def)

subsection \<open>More on the k-NN search and the embedding request\<close>

lemma example_knn:
  "knn_search (example_world (embedding_api []) (kb_store [] example_hits (Inr JNull))) ''kb'' vec1024 10 [] =
   ([status_success,
     (''results'', JArr [JObj [(''id'', JStr ''a''), (''score'', JFloat (Finite (9 / 10))),
                               (''text'', JStr ''alpha''),
                               (''metadata'', JObj [(''filename'', JStr ''f.txt'')])],
                         JObj [(''id'', JStr ''b''), (''score'', JFloat (Finite (1 / 2))),
                               (''text'', JStr ''beta''), (''metadata'', JObj [])]]),
     (''total'', JInt 2)],
    [IndicesExists ''kb'', Search (knn_query vec1024 10) ''kb'' 10])"
  by (simp add: example_world_def dict_get_def dict_item_def knn_search_def py_len_vec1024
        search_documents_def store_call_def knn_results_def dict_has_def example_hits_def)

lemma embedding_except_other:
  "(\<forall>m. e \<noteq> RequestsException m) \<Longrightarrow>
     embedding_except e = [status_error, (''message'', JStr (''Unexpected error: '' @ str_exn e))]"
  by (cases e) simp_all

lemma embedding_try_post_raises:
  "http_post w tr (embedding_post token v model) = Inl e \<Longrightarrow>
     fst (embedding_try w token v model tr) = embedding_except e"
  by (simp add: embedding_try_def)

lemma embedding_try_http_error:
  "http_post w tr (embedding_post token v model) = Inr r \<Longrightarrow> http_error r = Some m \<Longrightarrow>
     fst (embedding_try w token v model tr) = embedding_except (RequestsException m)"
  by (simp add: embedding_try_def raise_for_status_def)

lemma embedding_try_json_raises:
  "http_post w tr (embedding_post token v model) = Inr r \<Longrightarrow> http_error r = None \<Longrightarrow>
   json_body r = Inl e \<Longrightarrow>
     fst (embedding_try w token v model tr) = embedding_except e"
  by (simp add: embedding_try_def raise_for_status_def)

subsection \<open>A body without the embedding\<close>

lemma embedding_of_result_lacking:
  assumes "map_of body ''data'' = None
           \<or> (\<exists>item rest. map_of body ''data'' = Some (JArr (JObj item # rest))
                \<and> map_of item ''embedding'' = None)"
  shows "embedding_of_result (JObj body) = Inr (JArr [])"
  using assms by (auto simp: embedding_of_result_def dict_get_def)

lemma embedding_try_lacking:
  assumes "http_post w tr (embedding_post token v model) = Inr r"
    and "http_error r = None"
    and "json_body r = Inr (JObj body)"
    and "map_of body ''data'' = None
           \<or> (\<exists>item rest. map_of body ''data'' = Some (JArr (JObj item # rest))
                \<and> map_of item ''embedding'' = None)"
  shows "embedding_try w token v model tr =
           ([status_success, (''embedding'', JArr []), (''model'', JStr (model_name model))],
            tr @ [embedding_post token v model])"
  using assms(1-3) embedding_of_result_lacking [OF assms(4)]
  by (simp add: embedding_try_def raise_for_status_def)

subsection \<open>The loop over the documents of a batch\<close>

lemma embedding_except_shape:
  "\<exists>msg. embedding_except e = [status_error, (''message'', JStr msg)]"
  by (cases e) simp_all

lemma embedding_try_shape:
  "(\<exists>emb. embedding_try w token v model tr =
            ([status_success, (''embedding'', emb), (''model'', JStr (model_name model))],
             tr @ [embedding_post token v model]))
   \<or> (\<exists>msg. embedding_try w token v model tr =
            ([status_error, (''message'', JStr msg)], tr @ [embedding_post token v model]))"
  using embedding_except_shape
  by (simp add: embedding_try_def Let_def split: sum.splits)

lemma tools_embedding_shape:
  "(\<exists>emb tr1. EmbeddingTools_generate_embedding w api_token v model tr =
            ([status_success, (''embedding'', emb), (''model'', JStr (model_name model))], tr1))
   \<or> (\<exists>msg tr1. EmbeddingTools_generate_embedding w api_token v model tr =
            ([status_error, (''message'', JStr msg)], tr1))"
proof (cases api_token)
  case None
  then show ?thesis by (simp add: EmbeddingTools_generate_embedding_def)
next
  case (Some token)
  with embedding_try_shape [of w token v model tr] show ?thesis
    by (auto simp: EmbeddingTools_generate_embedding_def)
qed

lemma flagged_Cons:
  "flagged b (x # flags) (d # ds) = (if x = b then d # flagged b flags ds else flagged b flags ds)"
  by (simp add: flagged_def)

lemma flagged_Nil: "flagged b [] [] = []"
  by (simp add: flagged_def)

lemma embedded_ok_length: "length (embedded_ok w api_token text_field documents tr) = length documents"
  by (induction documents arbitrary: tr) (auto split: prod.splits)

lemma tools_embedding_trace:
  "\<exists>cs. snd (EmbeddingTools_generate_embedding w api_token v model tr) = tr @ cs
        \<and> \<not> list_ex is_store_call cs"
proof (cases "api_token = None \<or> api_token = Some []")
  case True
  then have "snd (EmbeddingTools_generate_embedding w api_token v model tr) = tr @ []"
    by (auto simp: EmbeddingTools_generate_embedding_def)
  then show ?thesis by (intro exI [of _ "[]"]) simp
next
  case False
  then obtain token where "api_token = Some token" and "token \<noteq> []" by auto
  then have "snd (EmbeddingTools_generate_embedding w api_token v model tr)
               = tr @ [embedding_post token v model]"
    by (simp add: EmbeddingTools_generate_embedding_def embedding_try_trace)
  then show ?thesis
    by (intro exI [of _ "[embedding_post token v model]"]) (simp add: embedding_post_def)
qed

text \<open>The first loop sends requests to the embedding API only.\<close>

lemma embed_documents_trace:
  "\<exists>cs. snd (embed_documents w api_token text_field documents processed_docs failed_docs tr) = tr @ cs
        \<and> \<not> list_ex is_store_call cs"
proof (induction documents arbitrary: processed_docs failed_docs tr)
  case Nil
  show ?case by simp
next
  case (Cons doc documents)
  show ?case
  proof (cases "dict_has doc text_field")
    case False
    with Cons.IH show ?thesis by simp
  next
    case True
    then obtain v where v: "map_of doc text_field = Some v"
      by (auto simp: dict_has_def split: option.splits)
    obtain res tr0 where g: "EmbeddingTools_generate_embedding w api_token v None tr = (res, tr0)"
      by (cases "EmbeddingTools_generate_embedding w api_token v None tr")
    with tools_embedding_trace [of w api_token v None tr] obtain cs0 where
      c0: "tr0 = tr @ cs0" and s0: "\<not> list_ex is_store_call cs0"
      by auto
    have step: "\<exists>cs. snd (embed_documents w api_token text_field documents P F tr0) = tr @ cs
        \<and> \<not> list_ex is_store_call cs" for P F
    proof -
      from Cons.IH [of P F tr0] obtain cs1 where
        "snd (embed_documents w api_token text_field documents P F tr0) = tr0 @ cs1"
        and "\<not> list_ex is_store_call cs1"
        by blast
      with c0 s0 show ?thesis by (intro exI [of _ "cs0 @ cs1"]) simp
    qed
    have here: "\<exists>cs. tr0 = tr @ cs \<and> \<not> list_ex is_store_call cs"
      using c0 s0 by blast
    from True v g step here show ?thesis
      by (auto simp: dict_item_def split: sum.splits)
  qed
qed

text \<open>The first loop: what it adds to its two accumulators.\<close>

lemma embed_documents_result:
  "\<exists>p f tr1.
     embed_documents w api_token text_field documents processed_docs failed_docs tr
       = (Inr (processed_docs @ p, failed_docs @ f), tr1)
   \<and> list_all2 (\<lambda>pd d. \<exists>emb. pd = dict_set d ''dense_vector'' emb) p
        (flagged True (embedded_ok w api_token text_field documents tr) documents)
   \<and> list_all2 (\<lambda>fd d. \<exists>reason. fd = JObj [(''doc'', JObj d), (''reason'', JStr reason)]) f
        (flagged False (embedded_ok w api_token text_field documents tr) documents)"
proof (induction documents arbitrary: processed_docs failed_docs tr)
  case Nil
  show ?case by (simp add: flagged_Nil)
next
  case (Cons doc documents)
  show ?case
  proof (cases "dict_has doc text_field")
    case False
    let ?m = "JObj [(''doc'', JObj doc),
                    (''reason'', JStr (''Missing text field '' @ squote text_field))]"
    from Cons.IH [of processed_docs "failed_docs @ [?m]" tr]
    obtain p f tr1 where
      e: "embed_documents w api_token text_field documents processed_docs (failed_docs @ [?m]) tr
          = (Inr (processed_docs @ p, (failed_docs @ [?m]) @ f), tr1)"
      and p: "list_all2 (\<lambda>pd d. \<exists>emb. pd = dict_set d ''dense_vector'' emb) p
        (flagged True (embedded_ok w api_token text_field documents tr) documents)"
      and f: "list_all2 (\<lambda>fd d. \<exists>reason. fd = JObj [(''doc'', JObj d), (''reason'', JStr reason)]) f
        (flagged False (embedded_ok w api_token text_field documents tr) documents)"
      by blast
    from False e have "embed_documents w api_token text_field (doc # documents) processed_docs failed_docs tr
          = (Inr (processed_docs @ p, failed_docs @ (?m # f)), tr1)"
      by simp
    moreover from False p have "list_all2 (\<lambda>pd d. \<exists>emb. pd = dict_set d ''dense_vector'' emb) p
        (flagged True (embedded_ok w api_token text_field (doc # documents) tr) (doc # documents))"
      by (simp add: flagged_Cons)
    moreover from False f have
      "list_all2 (\<lambda>fd d. \<exists>reason. fd = JObj [(''doc'', JObj d), (''reason'', JStr reason)]) (?m # f)
        (flagged False (embedded_ok w api_token text_field (doc # documents) tr) (doc # documents))"
      by (simp add: flagged_Cons)
    ultimately show ?thesis by blast
  next
    case True
    then obtain v where v: "map_of doc text_field = Some v"
      by (auto simp: dict_has_def split: option.splits)
    from tools_embedding_shape [of w api_token v None tr]
    show ?thesis
    proof (elim disjE exE)
      fix emb tr0
      assume g: "EmbeddingTools_generate_embedding w api_token v None tr =
            ([status_success, (''embedding'', emb), (''model'', JStr (model_name None))], tr0)"
      let ?d = "dict_set doc ''dense_vector'' emb"
      from Cons.IH [of "processed_docs @ [?d]" failed_docs tr0]
      obtain p f tr1 where
        e: "embed_documents w api_token text_field documents (processed_docs @ [?d]) failed_docs tr0
            = (Inr ((processed_docs @ [?d]) @ p, failed_docs @ f), tr1)"
        and p: "list_all2 (\<lambda>pd d. \<exists>emb. pd = dict_set d ''dense_vector'' emb) p
          (flagged True (embedded_ok w api_token text_field documents tr0) documents)"
        and f: "list_all2 (\<lambda>fd d. \<exists>reason. fd = JObj [(''doc'', JObj d), (''reason'', JStr reason)]) f
          (flagged False (embedded_ok w api_token text_field documents tr0) documents)"
        by blast
      from True v g e have "embed_documents w api_token text_field (doc # documents) processed_docs failed_docs tr
            = (Inr (processed_docs @ (?d # p), failed_docs @ f), tr1)"
        by (simp add: dict_item_def)
      moreover from True v g p have "list_all2 (\<lambda>pd d. \<exists>emb. pd = dict_set d ''dense_vector'' emb) (?d # p)
          (flagged True (embedded_ok w api_token text_field (doc # documents) tr) (doc # documents))"
        by (auto simp: flagged_Cons dict_get_def)
      moreover from True v g f have
        "list_all2 (\<lambda>fd d. \<exists>reason. fd = JObj [(''doc'', JObj d), (''reason'', JStr reason)]) f
          (flagged False (embedded_ok w api_token text_field (doc # documents) tr) (doc # documents))"
        by (auto simp: flagged_Cons dict_get_def)
      ultimately show ?thesis by blast
    next
      fix msg tr0
      assume g: "EmbeddingTools_generate_embedding w api_token v None tr =
            ([status_error, (''message'', JStr msg)], tr0)"
      let ?m = "JObj [(''doc'', JObj doc), (''reason'', JStr msg)]"
      from Cons.IH [of processed_docs "failed_docs @ [?m]" tr0]
      obtain p f tr1 where
        e: "embed_documents w api_token text_field documents processed_docs (failed_docs @ [?m]) tr0
            = (Inr (processed_docs @ p, (failed_docs @ [?m]) @ f), tr1)"
        and p: "list_all2 (\<lambda>pd d. \<exists>emb. pd = dict_set d ''dense_vector'' emb) p
          (flagged True (embedded_ok w api_token text_field documents tr0) documents)"
        and f: "list_all2 (\<lambda>fd d. \<exists>reason. fd = JObj [(''doc'', JObj d), (''reason'', JStr reason)]) f
          (flagged False (embedded_ok w api_token text_field documents tr0) documents)"
        by blast
      from True v g e have "embed_documents w api_token text_field (doc # documents) processed_docs failed_docs tr
            = (Inr (processed_docs @ p, failed_docs @ (?m # f)), tr1)"
        by (simp add: dict_item_def)
      moreover from True v g p have "list_all2 (\<lambda>pd d. \<exists>emb. pd = dict_set d ''dense_vector'' emb) p
          (flagged True (embedded_ok w api_token text_field (doc # documents) tr) (doc # documents))"
        by (auto simp: flagged_Cons dict_get_def)
      moreover from True v g f have
        "list_all2 (\<lambda>fd d. \<exists>reason. fd = JObj [(''doc'', JObj d), (''reason'', JStr reason)]) (?m # f)
          (flagged False (embedded_ok w api_token text_field (doc # documents) tr) (doc # documents))"
        by (auto simp: flagged_Cons dict_get_def)
      ultimately show ?thesis by blast
    qed
  qed
qed

lemma flagged_length:
  "length flags = length xs \<Longrightarrow> length (flagged b flags xs) = count_list flags b"
  by (induction flags xs rule: list_induct2) (auto simp: flagged_def)

lemma count_list_True_0: "count_list flags True = 0 \<longleftrightarrow> True \<notin> set flags"
  by (induction flags) auto

lemma tools_embedding_example:
  "EmbeddingTools_generate_embedding (example_world (embedding_api bad) st) (Some ''token'') (JStr t) None tr =
     (if t \<in> set bad then [status_error, (''message'', JStr ''API request failed: 503 Server Error'')]
      else [status_success, (''embedding'', vec1024), (''model'', JStr DEFAULT_MODEL)],
      tr @ [embedding_post ''token'' (JStr t) None])"
  by (simp add: EmbeddingTools_generate_embedding_def embedding_try_def embedding_post_def
        model_name_def example_world_def body_response_def raise_for_status_def
        embedding_of_result_def dict_get_def)

subsection \<open>The documents of a file\<close>

lemma map_of_dict_set: "map_of (dict_set d k v) = (map_of d)(k \<mapsto> v)"
  by (induction d) (auto simp: fun_eq_iff)

lemma basename_append:
  "CHR ''/'' \<notin> set name \<Longrightarrow> basename (dir @ CHR ''/'' # name) = name"
proof -
  assume n: "CHR ''/'' \<notin> set name"
  have "takeWhile (\<lambda>c. c \<noteq> CHR ''/'') (rev name @ CHR ''/'' # rev dir)
          = rev name @ takeWhile (\<lambda>c. c \<noteq> CHR ''/'') (CHR ''/'' # rev dir)"
    by (rule takeWhile_append2) (use n in auto)
  then show ?thesis by (simp add: basename_def)
qed

lemma bulk_result_logged:
  "\<exists>st x. dict_item (fst (bulk_index_with_embeddings w api_token idx documents text_field tr))
             ''status'' = Inr st
         \<and> dict_item (fst (bulk_index_with_embeddings w api_token idx documents text_field tr))
             (if st = JStr ''success'' then ''processed_count'' else ''message'') = Inr x"
proof -
  from embed_documents_result [of w api_token text_field documents "[]" "[]" tr]
  obtain p f tr1 where
    e: "embed_documents w api_token text_field documents [] [] tr = (Inr (p, f), tr1)"
    by auto
  let ?b = "fst (bulk_index_with_embeddings w api_token idx documents text_field tr)"
  have "(dict_item ?b ''status'' = Inr (JStr ''success'') \<and> (\<exists>x. dict_item ?b ''processed_count'' = Inr x))
      \<or> (dict_item ?b ''status'' = Inr (JStr ''error'') \<and> (\<exists>x. dict_item ?b ''message'' = Inr x))"
  proof (cases "p = []")
    case True
    with e show ?thesis by (simp add: bulk_index_with_embeddings_def dict_item_def)
  next
    case False
    show ?thesis
    proof (cases "store w tr1 (Bulk (bulk_data idx p) True)")
      case (Inl ex)
      with e False show ?thesis
        by (simp add: bulk_index_with_embeddings_def store_call_def bulk_except_def dict_item_def)
    next
      case (Inr resp)
      with e False show ?thesis
        by (simp add: bulk_index_with_embeddings_def store_call_def dict_item_def)
    qed
  qed
  then show ?thesis
  proof
    assume "dict_item ?b ''status'' = Inr (JStr ''success'') \<and> (\<exists>x. dict_item ?b ''processed_count'' = Inr x)"
    then show ?thesis by auto
  next
    assume a: "dict_item ?b ''status'' = Inr (JStr ''error'') \<and> (\<exists>x. dict_item ?b ''message'' = Inr x)"
    then obtain x where "dict_item ?b ''message'' = Inr x" by blast
    with a show ?thesis by (intro exI [of _ "JStr ''error''"] exI [of _ x]) simp
  qed
qed

subsection \<open>What the extraction raises, and what is sent in a bulk request\<close>

lemma py_get_raises: "py_get v k dflt = Inl e \<Longrightarrow> \<exists>m. e = PyAttributeError m"
  by (cases v) auto

lemma py_index0_raises:
  "py_index0 v = Inl e \<Longrightarrow> (\<exists>m. e = PyIndexError m) \<or> (\<exists>m. e = PyKeyError m) \<or> (\<exists>m. e = PyTypeError m)"
proof (cases v)
  case (JStr s)
  then show "py_index0 v = Inl e \<Longrightarrow> ?thesis" by (cases s) auto
next
  case (JArr xs)
  then show "py_index0 v = Inl e \<Longrightarrow> ?thesis" by (cases xs) auto
qed auto

lemma embedding_of_result_raises:
  assumes "embedding_of_result result = Inl e"
  shows "embedding_except e = [status_error, (''message'', JStr (''Unexpected error: '' @ str_exn e))]"
proof -
  have "(\<exists>m. e = PyAttributeError m) \<or> (\<exists>m. e = PyIndexError m)
                   \<or> (\<exists>m. e = PyKeyError m) \<or> (\<exists>m. e = PyTypeError m)"
  proof (cases "py_get result ''data'' (JArr [JObj []])")
    case (Inl e1)
    with assms have "e = e1" by (simp add: embedding_of_result_def)
    with Inl py_get_raises show ?thesis by blast
  next
    case (Inr d)
    show ?thesis
    proof (cases "py_index0 d")
      case (Inl e2)
      with Inr assms have "e = e2" by (simp add: embedding_of_result_def)
      with Inl py_index0_raises [of d e2] show ?thesis by blast
    next
      case (Inr first)
      with \<open>py_get result ''data'' (JArr [JObj []]) = Inr d\<close> assms
      have "py_get first ''embedding'' (JArr []) = Inl e" by (simp add: embedding_of_result_def)
      with py_get_raises show ?thesis by blast
    qed
  qed
  then show ?thesis by (elim disjE exE) simp_all
qed

lemma embedding_try_extract_raises:
  "http_post w tr (embedding_post token v model) = Inr r \<Longrightarrow> http_error r = None \<Longrightarrow>
   json_body r = Inr result \<Longrightarrow> embedding_of_result result = Inl e \<Longrightarrow>
     fst (embedding_try w token v model tr) = embedding_except e"
  by (simp add: embedding_try_def raise_for_status_def)

lemma embedding_try_returns:
  "http_post w tr (embedding_post token v model) = Inr r \<Longrightarrow> http_error r = None \<Longrightarrow>
   json_body r = Inr result \<Longrightarrow> embedding_of_result result = Inr emb \<Longrightarrow>
     fst (embedding_try w token v model tr) =
       [status_success, (''embedding'', emb), (''model'', JStr (model_name model))]"
  by (simp add: embedding_try_def raise_for_status_def)

lemma map_of_dict_pop: "map_of (dict_pop d k) k' = (if k' = k then None else map_of d k')"
  by (induction d) (auto simp: dict_pop_def)

lemma dict_has_dict_set_other:
  "k' \<noteq> k \<Longrightarrow> dict_has (dict_set d k v) k' = dict_has d k'"
  by (simp add: dict_has_def map_of_dict_set)

section \<open>The claims\<close>

subsection \<open>C1: the score filter of the similarity search\<close>

text \<open>
  C1. Whenever \<open>text_similarity_search(text, k, score=s)\<close> returns a result with status
  \<open>success\<close>: its results are exactly the results of the k-NN search (the pool) whose
  score is a number strictly greater than \<open>s\<close>, in the order of the pool, so no result
  with a score \<open>\<le> s\<close> is returned; \<open>total\<close> is their number; \<open>original_total\<close> is the
  size of the pool, which is at least the number of results returned. The filter runs
  after retrieval: the one search request sent to the store carries \<open>k\<close> as its size
  and as the \<open>k\<close> of the k-NN query and does not depend on \<open>s\<close>.
\<close>

theorem similarity_search_filters:
  assumes "fst (text_similarity_search w token idx t k s tr) = Inr d"
    and "dict_item d ''status'' = Inr (JStr ''success'')"
  shows "\<exists>emb pool results.
           dict_item (fst (generate_embedding w token t None tr)) ''embedding'' = Inr emb
         \<and> dict_item (fst (knn_search w idx emb k (tr @ [embedding_post token (JStr t) None])))
              ''results'' = Inr (JArr pool)
         \<and> snd (text_similarity_search w token idx t k s tr) =
              tr @ [embedding_post token (JStr t) None, IndicesExists idx,
                    Search (knn_query emb k) idx k]
         \<and> json_path (knn_query emb k) [''size''] = Some (JInt k)
         \<and> json_path (knn_query emb k) [''query'', ''knn'', ''dense_vector'', ''k''] = Some (JInt k)
         \<and> results = filter (score_above s) pool
         \<and> dict_item d ''results'' = Inr (JArr results)
         \<and> (\<forall>r \<in> set results. \<exists>v f. py_get r ''score'' (JInt 0) = Inr v \<and> as_number v = Some f
                \<and> float_gt f s \<and> \<not> float_le f s)
         \<and> dict_item d ''total'' = Inr (JInt (int (length results)))
         \<and> dict_item d ''original_total'' = Inr (JInt (int (length pool)))
         \<and> length results \<le> length pool"
proof -
  let ?tr1 = "tr @ [embedding_post token (JStr t) None]"
  from generate_embedding_cases [of token w t None tr]
  show ?thesis
  proof
    assume "\<exists>emb. token \<noteq> [] \<and> generate_embedding w token t None tr =
            ([status_success, (''embedding'', emb), (''model'', JStr (model_name None))], ?tr1)"
    then obtain emb where
      g: "generate_embedding w token t None tr =
            ([status_success, (''embedding'', emb), (''model'', JStr (model_name None))], ?tr1)"
      by blast
    obtain sr tr2 where k: "knn_search w idx emb k ?tr1 = (sr, tr2)"
      by (cases "knn_search w idx emb k ?tr1")
    show ?thesis
    proof (cases "dict_item sr ''status'' = Inr (JStr ''success'')")
      case True
      with k have "dict_item (fst (knn_search w idx emb k ?tr1)) ''status'' = Inr (JStr ''success'')"
        by simp
      from knn_search_success [OF this] k obtain pool where
        sr: "sr = [status_success, (''results'', JArr pool), (''total'', JInt (int (length pool)))]"
        and tr2: "tr2 = ?tr1 @ [IndicesExists idx, Search (knn_query emb k) idx k]"
        by auto
      from assms(1) g k sr obtain out where
        f: "filter_by_score pool s = Inr out" and
        d: "d = [status_success, (''query_text'', JStr t), (''results'', JArr out),
                 (''total'', JInt (int (length out))), (''score_threshold'', JFloat s),
                 (''original_total'', JInt (int (length pool)))]"
        by (auto simp: text_similarity_search_def dict_item_def dict_get_def split: sum.splits)
      from f have out: "out = filter (score_above s) pool" by (rule filter_by_score_filter)
      have sc: "\<forall>r \<in> set out. \<exists>v f. py_get r ''score'' (JInt 0) = Inr v \<and> as_number v = Some f
                \<and> float_gt f s \<and> \<not> float_le f s"
        using out score_above_iff float_gt_not_le by auto
      from assms(1) g k sr f tr2 have t: "snd (text_similarity_search w token idx t k s tr) =
              tr @ [embedding_post token (JStr t) None, IndicesExists idx,
                    Search (knn_query emb k) idx k]"
        by (simp add: text_similarity_search_def dict_item_def)
      have q: "json_path (knn_query emb k) [''size''] = Some (JInt k)
         \<and> json_path (knn_query emb k) [''query'', ''knn'', ''dense_vector'', ''k''] = Some (JInt k)"
        by (simp add: knn_query_def)
      from g k sr d out sc t q show ?thesis
        by (simp add: dict_item_def)
    next
      case False
      with assms g k show ?thesis
        by (auto simp: text_similarity_search_def dict_item_def split: sum.splits if_splits)
    qed
  next
    assume e: "dict_item (fst (generate_embedding w token t None tr)) ''status''
                 = Inr (JStr ''error'')"
    with assms show ?thesis
      by (auto simp: text_similarity_search_def split: prod.splits)
  qed
qed

text \<open>
  The example: two hits with scores 0.9 and 0.5 and the threshold 0.5. The hit at the
  threshold is dropped, \<open>original_total\<close> stays 2.
\<close>

theorem similarity_search_filters_witness:
  "(\<exists>d. fst (text_similarity_search
              (example_world (embedding_api []) (kb_store [] example_hits (Inr JNull)))
              ''token'' ''kb'' ''query'' 10 (Finite (1 / 2)) []) = Inr d
       \<and> dict_item d ''status'' = Inr (JStr ''success'')
       \<and> dict_item d ''total'' = Inr (JInt 1)
       \<and> dict_item d ''original_total'' = Inr (JInt 2))
   \<and> (\<exists>emb. snd (text_similarity_search
              (example_world (embedding_api []) (kb_store [] example_hits (Inr JNull)))
              ''token'' ''kb'' ''query'' 10 (Finite (1 / 2)) []) =
            [embedding_post ''token'' (JStr ''query'') None, IndicesExists ''kb'',
             Search (knn_query emb 10) ''kb'' 10])"
proof -
  let ?w = "example_world (embedding_api []) (kb_store [] example_hits (Inr JNull))"
  let ?d = "[status_success, (''query_text'', JStr ''query''),
         (''results'', JArr [JObj [(''id'', JStr ''a''), (''score'', JFloat (Finite (9 / 10))),
                                   (''text'', JStr ''alpha''),
                                   (''metadata'', JObj [(''filename'', JStr ''f.txt'')])]]),
         (''total'', JInt 1), (''score_threshold'', JFloat (Finite (1 / 2))),
         (''original_total'', JInt 2)]"
  have h1: "fst (text_similarity_search ?w ''token'' ''kb'' ''query'' 10 (Finite (1 / 2)) []) = Inr ?d"
    by (simp add: example_search)
  have h2: "dict_item ?d ''status'' = Inr (JStr ''success'')"
    by (simp add: dict_item_def)
  from similarity_search_filters [OF h1 h2] have
    "\<exists>emb. snd (text_similarity_search ?w ''token'' ''kb'' ''query'' 10 (Finite (1 / 2)) []) =
            [embedding_post ''token'' (JStr ''query'') None, IndicesExists ''kb'',
             Search (knn_query emb 10) ''kb'' 10]"
    by auto
  moreover have "dict_item ?d ''total'' = Inr (JInt 1) \<and> dict_item ?d ''original_total'' = Inr (JInt 2)"
    by (simp add: dict_item_def)
  ultimately show ?thesis using h1 h2 by blast
qed

subsection \<open>C3: the dimension check of the k-NN search\<close>

text \<open>
  C3. A vector whose length is not 1024 (512, say) makes \<open>knn_search\<close> return a result
  with status \<open>error\<close> and the dimension-mismatch message, and no request is sent to the
  store: the trace is unchanged. More generally, whenever \<open>len(vector)\<close> is not 1024
  (also when the value has no length) the result is an error and the trace is unchanged,
  so a request reaches the store only when the length is 1024.
\<close>

theorem knn_search_dimension:
  "(py_len vector = Inr n \<and> n \<noteq> 1024 \<longrightarrow>
      knn_search w idx vector k tr =
        ([status_error,
          (''message'', JStr (''Vector dimension mismatch. Expected 1024, got '' @ show_nat n))], tr))
   \<and> (py_len vector \<noteq> Inr 1024 \<longrightarrow>
        dict_item (fst (knn_search w idx vector k tr)) ''status'' = Inr (JStr ''error'')
        \<and> snd (knn_search w idx vector k tr) = tr)
   \<and> (list_ex is_store_call (drop (length tr) (snd (knn_search w idx vector k tr)))
        \<longrightarrow> py_len vector = Inr 1024)"
  by (auto simp add: knn_search_def show_nat_1024 knn_search_except_def dict_item_def
           split: sum.splits prod.splits)

theorem knn_search_dimension_witness:
  "py_len (JArr (replicate 512 JNull)) = Inr 512
   \<and> knn_search (example_world (embedding_api []) (kb_store [] example_hits (Inr JNull))) ''kb''
        (JArr (replicate 512 JNull)) 10 [] =
       ([status_error, (''message'', JStr ''Vector dimension mismatch. Expected 1024, got 512'')], [])"
  using knn_search_dimension [of "JArr (replicate 512 JNull)" 512
          "example_world (embedding_api []) (kb_store [] example_hits (Inr JNull))" "''kb''" 10 "[]"]
  by (simp add: show_nat_512)

subsection \<open>C4: the uniform result of the gateway\<close>

text \<open>
  C4. \<open>search_documents\<close>, \<open>write_document\<close>, \<open>index_document\<close> and
  \<open>delete_document\<close> return, for every input and whatever the store answers or raises
  (any exception of class \<open>Exception\<close>) at each of their requests, a dict whose
  \<open>status\<close> is \<open>success\<close>, or \<open>error\<close> with a \<open>message\<close>. They return a dict in every
  case: no exception of the store reaches the caller.
\<close>

theorem gateway_uniform_result:
  "uniform_result (fst (search_documents w idx query k tr))
   \<and> uniform_result (fst (write_document w idx document_id document tr))
   \<and> uniform_result (fst (index_document w idx document tr))
   \<and> uniform_result (fst (delete_document w idx document_id tr))"
  by (simp add: uniform_search uniform_put uniform_delete write_document_def index_document_def)

subsection \<open>C7: deleting a document\<close>

text \<open>
  C7. When the index exists and the store answers the delete request with
  \<open>NotFoundError\<close> (the id is not in the index), \<open>delete_document\<close> returns status
  \<open>error\<close> with the message \<open>Document with ID <id> not found\<close>; when the store
  acknowledges the deletion, it returns status \<open>success\<close> with the acknowledgment as
  \<open>response\<close>. In every case the result is a dict of the uniform shape, never an
  exception.
\<close>

theorem delete_document_outcomes:
  "(store w tr (IndicesExists idx) = Inr ex \<and> truthy ex
      \<and> store w (tr @ [IndicesExists idx]) (Delete idx document_id True) = Inl (OSNotFoundError m)
    \<longrightarrow> delete_document w idx document_id tr =
          ([status_error, (''message'', JStr (''Document with ID '' @ document_id @ '' not found''))],
           tr @ [IndicesExists idx, Delete idx document_id True]))
   \<and> (store w tr (IndicesExists idx) = Inr ex \<and> truthy ex
      \<and> store w (tr @ [IndicesExists idx]) (Delete idx document_id True) = Inr ack
    \<longrightarrow> delete_document w idx document_id tr =
          ([status_success, (''response'', ack)],
           tr @ [IndicesExists idx, Delete idx document_id True]))
   \<and> uniform_result (fst (delete_document w idx document_id tr))"
  by (simp add: uniform_delete) (simp add: delete_document_def store_call_def)

text \<open>A store that holds the document \<open>a\<close> only: deleting \<open>b\<close>, then deleting \<open>a\<close>.\<close>

theorem delete_document_outcomes_witness:
  "delete_document (example_world (embedding_api []) (kb_store [''a''] example_hits (Inr JNull)))
      ''kb'' ''b'' [] =
     ([status_error, (''message'', JStr ''Document with ID b not found'')],
      [IndicesExists ''kb'', Delete ''kb'' ''b'' True])
   \<and> delete_document (example_world (embedding_api []) (kb_store [''a''] example_hits (Inr JNull)))
      ''kb'' ''a'' [] =
     ([status_success, (''response'', JObj [(''result'', JStr ''deleted'')])],
      [IndicesExists ''kb'', Delete ''kb'' ''a'' True])"
  using delete_document_outcomes
          [of "example_world (embedding_api []) (kb_store [''a''] example_hits (Inr JNull))"
              "[]" "''kb''" "JBool True" "''b''" "''NotFoundError(404)''" "JNull"]
        delete_document_outcomes
          [of "example_world (embedding_api []) (kb_store [''a''] example_hits (Inr JNull))"
              "[]" "''kb''" "JBool True" "''a''" "''x''" "JObj [(''result'', JStr ''deleted'')]"]
  by (simp add: example_world_def)

subsection \<open>C5: the query and the reshaped hits\<close>

text \<open>
  C5. Whenever \<open>knn_search\<close> returns status \<open>success\<close>: the query it sent lists
  exactly \<open>dense_vector\<close> under \<open>_source.excludes\<close>; the results are as many as the
  hits the store returned, and the result at position \<open>i\<close> is the dict with the keys
  \<open>id\<close>, \<open>score\<close>, \<open>text\<close> and \<open>metadata\<close> (in this order) made from hit \<open>i\<close>:
  its \<open>_id\<close>, its \<open>_score\<close>, the \<open>text\<close> of its \<open>_source\<close>, and as metadata every
  field of the \<open>_source\<close> except \<open>text\<close> and \<open>dense_vector\<close>.
\<close>

theorem knn_search_reshapes:
  assumes "dict_item (fst (knn_search w idx vector k tr)) ''status'' = Inr (JStr ''success'')"
  shows "json_path (knn_query vector k) [''_source'', ''excludes''] = Some (JArr [JStr ''dense_vector''])
       \<and> snd (knn_search w idx vector k tr) =
           tr @ [IndicesExists idx, Search (knn_query vector k) idx k]
       \<and> (\<exists>reply outer hv hits rs.
             store w (tr @ [IndicesExists idx]) (Search (knn_query vector k) idx k) = Inr reply
           \<and> py_get reply ''hits'' (JObj []) = Inr outer
           \<and> py_get outer ''hits'' (JArr []) = Inr hv
           \<and> py_iter hv = Inr hits
           \<and> dict_item (fst (knn_search w idx vector k tr)) ''results'' = Inr (JArr rs)
           \<and> length rs = length hits
           \<and> (\<forall>i < length hits. \<exists>h src md.
                  hits ! i = JObj h
                \<and> dict_get h ''_source'' (JObj []) = JObj src
                \<and> rs ! i = JObj [(''id'', dict_get h ''_id'' JNull),
                                  (''score'', dict_get h ''_score'' JNull),
                                  (''text'', dict_get src ''text'' (JStr [])),
                                  (''metadata'', JObj md)]
                \<and> (\<forall>key. map_of md key =
                      (if key = ''text'' \<or> key = ''dense_vector'' then None else map_of src key))))"
proof -
  from knn_search_success [OF assms] obtain reply outer hv hits rs where
    r: "store w (tr @ [IndicesExists idx]) (Search (knn_query vector k) idx k) = Inr reply" and
    o: "py_get reply ''hits'' (JObj []) = Inr outer" and
    h: "py_get outer ''hits'' (JArr []) = Inr hv" and
    i: "py_iter hv = Inr hits" and
    s: "simplify_hits hits = Inr rs" and
    k: "knn_search w idx vector k tr =
             ([status_success, (''results'', JArr rs), (''total'', JInt (int (length rs)))],
              tr @ [IndicesExists idx, Search (knn_query vector k) idx k])"
    by blast
  have shape: "\<forall>i < length hits. \<exists>h src md.
                  hits ! i = JObj h
                \<and> dict_get h ''_source'' (JObj []) = JObj src
                \<and> rs ! i = JObj [(''id'', dict_get h ''_id'' JNull),
                                  (''score'', dict_get h ''_score'' JNull),
                                  (''text'', dict_get src ''text'' (JStr [])),
                                  (''metadata'', JObj md)]
                \<and> (\<forall>key. map_of md key =
                      (if key = ''text'' \<or> key = ''dense_vector'' then None else map_of src key))"
  proof (intro allI impI)
    fix j assume "j < length hits"
    from simplify_hits_nth [OF s this] have "simplify_hit (hits ! j) = Inr (rs ! j)" .
    from simplify_hit_shape [OF this] obtain hh src where
      a: "hits ! j = JObj hh" and b: "dict_get hh ''_source'' (JObj []) = JObj src" and
      c: "rs ! j = JObj [(''id'', dict_get hh ''_id'' JNull), (''score'', dict_get hh ''_score'' JNull),
                       (''text'', dict_get src ''text'' (JStr [])),
                       (''metadata'',
                        JObj (filter (\<lambda>p. fst p \<noteq> ''text'' \<and> fst p \<noteq> ''dense_vector'') src))]"
      by blast
    have "\<forall>key. map_of (filter (\<lambda>p. fst p \<noteq> ''text'' \<and> fst p \<noteq> ''dense_vector'') src) key =
                      (if key = ''text'' \<or> key = ''dense_vector'' then None else map_of src key)"
      by (simp only: map_of_filter_keys) simp
    with a b c show "\<exists>h src md.
                  hits ! j = JObj h
                \<and> dict_get h ''_source'' (JObj []) = JObj src
                \<and> rs ! j = JObj [(''id'', dict_get h ''_id'' JNull),
                                  (''score'', dict_get h ''_score'' JNull),
                                  (''text'', dict_get src ''text'' (JStr [])),
                                  (''metadata'', JObj md)]
                \<and> (\<forall>key. map_of md key =
                      (if key = ''text'' \<or> key = ''dense_vector'' then None else map_of src key))"
      by blast
  qed
  have q: "json_path (knn_query vector k) [''_source'', ''excludes''] = Some (JArr [JStr ''dense_vector''])"
    by (simp add: knn_query_def)
  have res: "dict_item (fst (knn_search w idx vector k tr)) ''results'' = Inr (JArr rs)"
    by (simp add: k dict_item_def)
  from q k r o h i res simplify_hits_length [OF s] shape show ?thesis
    by (intro conjI exI [of _ reply] exI [of _ outer] exI [of _ hv] exI [of _ hits] exI [of _ rs]) simp_all
qed

text \<open>The example store returns two hits; the second has no field but its text.\<close>

theorem knn_search_reshapes_witness:
  "dict_item (fst (knn_search (example_world (embedding_api []) (kb_store [] example_hits (Inr JNull)))
                     ''kb'' vec1024 10 [])) ''status'' = Inr (JStr ''success'')
   \<and> snd (knn_search (example_world (embedding_api []) (kb_store [] example_hits (Inr JNull)))
                     ''kb'' vec1024 10 []) = [IndicesExists ''kb'', Search (knn_query vec1024 10) ''kb'' 10]
   \<and> json_path (knn_query vec1024 10) [''_source'', ''excludes''] = Some (JArr [JStr ''dense_vector''])"
proof -
  let ?w = "example_world (embedding_api []) (kb_store [] example_hits (Inr JNull))"
  have h: "dict_item (fst (knn_search ?w ''kb'' vec1024 10 [])) ''status'' = Inr (JStr ''success'')"
    by (simp add: example_knn dict_item_def)
  from knn_search_reshapes [OF h] h show ?thesis by simp
qed

subsection \<open>C8: the errors of the embedding request\<close>

text \<open>
  C8. Without a token (\<open>''\<close> in app.py, \<open>None\<close> or \<open>''\<close> in \<open>EmbeddingTools\<close>)
  \<open>generate_embedding\<close> returns the missing-token error and the trace is unchanged: no
  request is sent. With a token exactly one request is appended to the trace, whatever
  its outcome. A \<open>RequestException\<close> gives \<open>API request failed: ...\<close>, whether
  \<open>requests.post\<close> raises it, \<open>raise_for_status\<close> raises it (\<open>HTTPError\<close>) or
  \<open>response.json()\<close> raises it (the \<open>JSONDecodeError\<close> of requests). Any other
  exception gives \<open>Unexpected error: ...\<close>: one raised by the request, one raised by
  \<open>response.json()\<close>, and every exception of the extraction
  \<open>result.get("data", [{}])[0].get("embedding", [])\<close>, which raises no
  \<open>RequestException\<close> (an empty \<open>data\<close> list raises IndexError, a body that is no
  object AttributeError). When nothing raises, the result is \<open>success\<close> with the
  embedding extracted. The two copies of the function return the same result.
\<close>

theorem generate_embedding_errors:
  "generate_embedding w [] t model tr = (no_token_error, tr)
   \<and> EmbeddingTools_generate_embedding w None v model tr = (no_token_error, tr)
   \<and> EmbeddingTools_generate_embedding w (Some []) v model tr = (no_token_error, tr)
   \<and> (token \<noteq> [] \<longrightarrow>
        snd (generate_embedding w token t model tr) = tr @ [embedding_post token (JStr t) model]
      \<and> snd (EmbeddingTools_generate_embedding w (Some token) v model tr)
          = tr @ [embedding_post token v model]
      \<and> fst (EmbeddingTools_generate_embedding w (Some token) (JStr t) model tr)
          = fst (generate_embedding w token t model tr))
   \<and> (token \<noteq> [] \<and> http_post w tr (embedding_post token (JStr t) model) = Inl (RequestsException m)
        \<longrightarrow> fst (generate_embedding w token t model tr)
              = [status_error, (''message'', JStr (''API request failed: '' @ m))])
   \<and> (token \<noteq> [] \<and> http_post w tr (embedding_post token (JStr t) model) = Inr r
        \<and> http_error r = Some m
        \<longrightarrow> fst (generate_embedding w token t model tr)
              = [status_error, (''message'', JStr (''API request failed: '' @ m))])
   \<and> (token \<noteq> [] \<and> http_post w tr (embedding_post token (JStr t) model) = Inl e
        \<and> (\<forall>m. e \<noteq> RequestsException m)
        \<longrightarrow> fst (generate_embedding w token t model tr)
              = [status_error, (''message'', JStr (''Unexpected error: '' @ str_exn e))])
   \<and> (token \<noteq> [] \<and> http_post w tr (embedding_post token (JStr t) model) = Inr r
        \<and> http_error r = None \<and> json_body r = Inl e \<and> (\<forall>m. e \<noteq> RequestsException m)
        \<longrightarrow> fst (generate_embedding w token t model tr)
              = [status_error, (''message'', JStr (''Unexpected error: '' @ str_exn e))])
   \<and> (token \<noteq> [] \<and> http_post w tr (embedding_post token (JStr t) model) = Inr r
        \<and> http_error r = None \<and> json_body r = Inl (RequestsException m)
        \<longrightarrow> fst (generate_embedding w token t model tr)
              = [status_error, (''message'', JStr (''API request failed: '' @ m))])
   \<and> (token \<noteq> [] \<and> http_post w tr (embedding_post token (JStr t) model) = Inr r
        \<and> http_error r = None \<and> json_body r = Inr result \<and> embedding_of_result result = Inl e
        \<longrightarrow> (\<forall>m. e \<noteq> RequestsException m)
            \<and> fst (generate_embedding w token t model tr)
              = [status_error, (''message'', JStr (''Unexpected error: '' @ str_exn e))])
   \<and> (token \<noteq> [] \<and> http_post w tr (embedding_post token (JStr t) model) = Inr r
        \<and> http_error r = None \<and> json_body r = Inr result \<and> embedding_of_result result = Inr emb
        \<longrightarrow> fst (generate_embedding w token t model tr)
              = [status_success, (''embedding'', emb), (''model'', JStr (model_name model))])
   \<and> embedding_of_result (JObj [(''data'', JArr [])]) = Inl (PyIndexError ''list index out of range'')
   \<and> embedding_of_result JNull
        = Inl (PyAttributeError (squote ''NoneType'' @ '' object has no attribute '' @ squote ''get''))"
proof -
  have x: "embedding_of_result result = Inl e \<longrightarrow> (\<forall>m. e \<noteq> RequestsException m)"
  proof
    assume "embedding_of_result result = Inl e"
    from embedding_of_result_raises [OF this] show "\<forall>m. e \<noteq> RequestsException m"
      by (cases e) simp_all
  qed
  have y: "embedding_of_result (JObj [(''data'', JArr [])]) = Inl (PyIndexError ''list index out of range'')
   \<and> embedding_of_result JNull
        = Inl (PyAttributeError (squote ''NoneType'' @ '' object has no attribute '' @ squote ''get''))"
    by (simp add: embedding_of_result_def dict_get_def)
  have a: "generate_embedding w [] t model tr = (no_token_error, tr)
   \<and> EmbeddingTools_generate_embedding w None v model tr = (no_token_error, tr)
   \<and> EmbeddingTools_generate_embedding w (Some []) v model tr = (no_token_error, tr)"
    by (simp add: generate_embedding_def EmbeddingTools_generate_embedding_def)
  have g: "token \<noteq> [] \<Longrightarrow>
      generate_embedding w token t model tr = embedding_try w token (JStr t) model tr"
    by (simp add: generate_embedding_def)
  have c: "token \<noteq> [] \<Longrightarrow>
      EmbeddingTools_generate_embedding w (Some token) u model tr = embedding_try w token u model tr" for u
    by (simp add: EmbeddingTools_generate_embedding_def)
  show ?thesis
  proof (intro conjI impI; (elim conjE)?)
    show "generate_embedding w [] t model tr = (no_token_error, tr)" using a by simp
    show "EmbeddingTools_generate_embedding w None v model tr = (no_token_error, tr)" using a by simp
    show "EmbeddingTools_generate_embedding w (Some []) v model tr = (no_token_error, tr)" using a by simp
    show "embedding_of_result (JObj [(''data'', JArr [])]) = Inl (PyIndexError ''list index out of range'')"
      using y by simp
    show "embedding_of_result JNull
        = Inl (PyAttributeError (squote ''NoneType'' @ '' object has no attribute '' @ squote ''get''))"
      using y by simp
  next
    assume "token \<noteq> []"
    then show "snd (generate_embedding w token t model tr) = tr @ [embedding_post token (JStr t) model]"
      by (simp add: g embedding_try_trace)
  next
    assume "token \<noteq> []"
    then show "snd (EmbeddingTools_generate_embedding w (Some token) v model tr)
          = tr @ [embedding_post token v model]"
      by (simp add: c embedding_try_trace)
  next
    assume "token \<noteq> []"
    then show "fst (EmbeddingTools_generate_embedding w (Some token) (JStr t) model tr)
          = fst (generate_embedding w token t model tr)"
      by (simp add: c g)
  next
    assume "token \<noteq> []" "http_post w tr (embedding_post token (JStr t) model) = Inl (RequestsException m)"
    then show "fst (generate_embedding w token t model tr)
              = [status_error, (''message'', JStr (''API request failed: '' @ m))]"
      by (simp add: g embedding_try_post_raises)
  next
    assume "token \<noteq> []" "http_post w tr (embedding_post token (JStr t) model) = Inr r"
      "http_error r = Some m"
    then show "fst (generate_embedding w token t model tr)
              = [status_error, (''message'', JStr (''API request failed: '' @ m))]"
      by (simp add: g embedding_try_http_error)
  next
    assume "token \<noteq> []" "http_post w tr (embedding_post token (JStr t) model) = Inl e"
      "\<forall>m. e \<noteq> RequestsException m"
    then show "fst (generate_embedding w token t model tr)
              = [status_error, (''message'', JStr (''Unexpected error: '' @ str_exn e))]"
      by (simp add: g embedding_try_post_raises embedding_except_other)
  next
    assume "token \<noteq> []" "http_post w tr (embedding_post token (JStr t) model) = Inr r"
      "http_error r = None" "json_body r = Inl e" "\<forall>m. e \<noteq> RequestsException m"
    then show "fst (generate_embedding w token t model tr)
              = [status_error, (''message'', JStr (''Unexpected error: '' @ str_exn e))]"
      by (simp add: g embedding_try_json_raises embedding_except_other)
  next
    assume "token \<noteq> []" "http_post w tr (embedding_post token (JStr t) model) = Inr r"
      "http_error r = None" "json_body r = Inl (RequestsException m)"
    then show "fst (generate_embedding w token t model tr)
              = [status_error, (''message'', JStr (''API request failed: '' @ m))]"
      by (simp add: g embedding_try_json_raises)
  next
    assume "token \<noteq> []" "http_post w tr (embedding_post token (JStr t) model) = Inr r"
      "http_error r = None" "json_body r = Inr result" "embedding_of_result result = Inl e"
    then show "\<forall>m. e \<noteq> RequestsException m" using x by simp
  next
    assume "token \<noteq> []" "http_post w tr (embedding_post token (JStr t) model) = Inr r"
      "http_error r = None" "json_body r = Inr result" "embedding_of_result result = Inl e"
    then show "fst (generate_embedding w token t model tr)
              = [status_error, (''message'', JStr (''Unexpected error: '' @ str_exn e))]"
      by (simp add: g embedding_try_extract_raises embedding_of_result_raises)
  next
    assume "token \<noteq> []" "http_post w tr (embedding_post token (JStr t) model) = Inr r"
      "http_error r = None" "json_body r = Inr result" "embedding_of_result result = Inr emb"
    then show "fst (generate_embedding w token t model tr)
              = [status_success, (''embedding'', emb), (''model'', JStr (model_name model))]"
      by (simp add: g embedding_try_returns)
  qed
qed

text \<open>
  A refused request (with the request that was sent), a 500 answer, a request raising
  an exception that is no \<open>RequestException\<close>, a body that is not JSON (\<open>json()\<close>
  raising a \<open>RequestException\<close>), \<open>json()\<close> raising another exception, an empty
  \<open>data\<close> list, and an answer with an embedding.
\<close>

theorem generate_embedding_errors_witness:
  "generate_embedding (example_world (embedding_api [''query'']) (kb_store [] example_hits (Inr JNull)))
      ''token'' ''query'' None [] =
     ([status_error, (''message'', JStr ''API request failed: 503 Server Error'')],
      [HttpPost ''https://api.siliconflow.cn/v1/embeddings''
         (JObj [(''model'', JStr ''Pro/BAAI/bge-m3''), (''input'', JStr ''query''),
                (''encoding_format'', JStr ''float'')])
         [(''Authorization'', ''Bearer token''), (''Content-Type'', ''application/json'')]])
   \<and> fst (generate_embedding
        (example_world (\<lambda>tr c. Inr \<lparr>http_error = Some ''500 Server Error'', json_body = Inr JNull\<rparr>)
           (kb_store [] example_hits (Inr JNull)))
        ''token'' ''query'' None []) =
     [status_error, (''message'', JStr ''API request failed: 500 Server Error'')]
   \<and> fst (generate_embedding
        (example_world (\<lambda>tr c. Inl (OtherException ''boom'')) (kb_store [] example_hits (Inr JNull)))
        ''token'' ''query'' None []) =
     [status_error, (''message'', JStr ''Unexpected error: boom'')]
   \<and> fst (generate_embedding
        (example_world
           (\<lambda>tr c. Inr \<lparr>http_error = None, json_body = Inl (RequestsException ''Expecting value'')\<rparr>)
           (kb_store [] example_hits (Inr JNull)))
        ''token'' ''query'' None []) =
     [status_error, (''message'', JStr ''API request failed: Expecting value'')]
   \<and> fst (generate_embedding
        (example_world (\<lambda>tr c. Inr \<lparr>http_error = None, json_body = Inl (OtherException ''no decoder'')\<rparr>)
           (kb_store [] example_hits (Inr JNull)))
        ''token'' ''query'' None []) =
     [status_error, (''message'', JStr ''Unexpected error: no decoder'')]
   \<and> fst (generate_embedding
        (example_world (\<lambda>tr c. body_response (JObj [(''data'', JArr [])]))
           (kb_store [] example_hits (Inr JNull)))
        ''token'' ''query'' None []) =
     [status_error, (''message'', JStr ''Unexpected error: list index out of range'')]
   \<and> fst (generate_embedding
        (example_world (embedding_api []) (kb_store [] example_hits (Inr JNull)))
        ''token'' ''query'' None []) =
     [status_success, (''embedding'', vec1024), (''model'', JStr DEFAULT_MODEL)]"
proof -
  let ?st = "kb_store [] example_hits (Inr JNull)"
  have a: "generate_embedding (example_world (embedding_api [''query'']) ?st)
      ''token'' ''query'' None [] =
     ([status_error, (''message'', JStr ''API request failed: 503 Server Error'')],
      [HttpPost ''https://api.siliconflow.cn/v1/embeddings''
         (JObj [(''model'', JStr ''Pro/BAAI/bge-m3''), (''input'', JStr ''query''),
                (''encoding_format'', JStr ''float'')])
         [(''Authorization'', ''Bearer token''), (''Content-Type'', ''application/json'')]])"
    using generate_embedding_errors
            [where w = "example_world (embedding_api [''query'']) ?st" and token = "''token''"
               and t = "''query''" and model = None and tr = "[]" and m = "''503 Server Error''"]
    by (simp add: example_world_def embedding_post_def model_name_def prod_eq_iff)
  have b: "fst (generate_embedding
        (example_world (\<lambda>tr c. Inr \<lparr>http_error = Some ''500 Server Error'', json_body = Inr JNull\<rparr>) ?st)
        ''token'' ''query'' None []) =
     [status_error, (''message'', JStr ''API request failed: 500 Server Error'')]"
    using generate_embedding_errors
            [where w = "example_world (\<lambda>tr c. Inr \<lparr>http_error = Some ''500 Server Error'', json_body = Inr JNull\<rparr>) ?st"
               and token = "''token''" and t = "''query''" and model = None and tr = "[]"
               and m = "''500 Server Error''"
               and r = "\<lparr>http_error = Some ''500 Server Error'', json_body = Inr JNull\<rparr>"]
    by (simp add: example_world_def)
  have c: "fst (generate_embedding (example_world (\<lambda>tr c. Inl (OtherException ''boom'')) ?st)
        ''token'' ''query'' None []) =
     [status_error, (''message'', JStr ''Unexpected error: boom'')]"
    using generate_embedding_errors
            [where w = "example_world (\<lambda>tr c. Inl (OtherException ''boom'')) ?st"
               and token = "''token''" and t = "''query''" and model = None and tr = "[]"
               and e = "OtherException ''boom''"]
    by (simp add: example_world_def)
  have d: "fst (generate_embedding
        (example_world
           (\<lambda>tr c. Inr \<lparr>http_error = None, json_body = Inl (RequestsException ''Expecting value'')\<rparr>) ?st)
        ''token'' ''query'' None []) =
     [status_error, (''message'', JStr ''API request failed: Expecting value'')]"
    using generate_embedding_errors
            [where w = "example_world
               (\<lambda>tr c. Inr \<lparr>http_error = None, json_body = Inl (RequestsException ''Expecting value'')\<rparr>) ?st"
               and token = "''token''" and t = "''query''" and model = None and tr = "[]"
               and m = "''Expecting value''"
               and r = "\<lparr>http_error = None, json_body = Inl (RequestsException ''Expecting value'')\<rparr>"]
    by (simp add: example_world_def)
  have e: "fst (generate_embedding
        (example_world (\<lambda>tr c. Inr \<lparr>http_error = None, json_body = Inl (OtherException ''no decoder'')\<rparr>) ?st)
        ''token'' ''query'' None []) =
     [status_error, (''message'', JStr ''Unexpected error: no decoder'')]"
    using generate_embedding_errors
            [where w = "example_world (\<lambda>tr c. Inr \<lparr>http_error = None, json_body = Inl (OtherException ''no decoder'')\<rparr>) ?st"
               and token = "''token''" and t = "''query''" and model = None and tr = "[]"
               and e = "OtherException ''no decoder''"
               and r = "\<lparr>http_error = None, json_body = Inl (OtherException ''no decoder'')\<rparr>"]
    by (simp add: example_world_def)
  have f: "fst (generate_embedding
        (example_world (\<lambda>tr c. body_response (JObj [(''data'', JArr [])])) ?st)
        ''token'' ''query'' None []) =
     [status_error, (''message'', JStr ''Unexpected error: list index out of range'')]"
    using generate_embedding_errors
            [where w = "example_world (\<lambda>tr c. body_response (JObj [(''data'', JArr [])])) ?st"
               and token = "''token''" and t = "''query''" and model = None and tr = "[]"
               and e = "PyIndexError ''list index out of range''"
               and result = "JObj [(''data'', JArr [])]"
               and r = "\<lparr>http_error = None, json_body = Inr (JObj [(''data'', JArr [])])\<rparr>"]
    by (simp add: example_world_def body_response_def)
  have g: "fst (generate_embedding (example_world (embedding_api []) ?st)
        ''token'' ''query'' None []) =
     [status_success, (''embedding'', vec1024), (''model'', JStr DEFAULT_MODEL)]"
    using generate_embedding_errors
            [where w = "example_world (embedding_api []) ?st"
               and token = "''token''" and t = "''query''" and model = None and tr = "[]"
               and emb = vec1024
               and result = "JObj [(''data'', JArr [JObj [(''embedding'', vec1024)]])]"
               and r = "\<lparr>http_error = None,
                         json_body = Inr (JObj [(''data'', JArr [JObj [(''embedding'', vec1024)]])])\<rparr>"]
    by (simp add: example_world_def body_response_def embedding_post_def model_name_def
          embedding_of_result_def dict_get_def)
  from a b c d e f g show ?thesis by simp
qed

subsection \<open>C10: an answer without the embedding\<close>

text \<open>
  C10. When the API answers with an HTTP success and a JSON object that has no \<open>data\<close>
  key, or whose \<open>data\<close> is a list starting with an object that has no \<open>embedding\<close>
  key, both copies of \<open>generate_embedding\<close> return status \<open>success\<close> with the
  embedding \<open>[]\<close>. The search path then stops at the dimension check of \<open>knn_search\<close>
  (\<open>Expected 1024, got 0\<close>) without a request to the store. The write path does not
  check: for a document with this text, \<open>bulk_index_with_embeddings\<close> sends one bulk
  request whose body is the action header for the index (with the document's \<open>_id\<close>
  when it has one) followed by the document itself, with \<open>dense_vector = []\<close>, its
  text and its other fields unchanged (the \<open>_id\<close> moved to the header), and it reports
  \<open>success\<close> with \<open>processed_count = 1\<close> when the store accepts the request.
\<close>

theorem empty_embedding_reported_as_success:
  assumes "token \<noteq> []"
    and "http_post w tr (embedding_post token (JStr t) None) = Inr r"
    and "http_error r = None"
    and "json_body r = Inr (JObj body)"
    and "map_of body ''data'' = None
           \<or> (\<exists>item rest. map_of body ''data'' = Some (JArr (JObj item # rest))
                \<and> map_of item ''embedding'' = None)"
    and "map_of doc ''text'' = Some (JStr t)"
  shows "generate_embedding w token t None tr =
           ([status_success, (''embedding'', JArr []), (''model'', JStr DEFAULT_MODEL)],
            tr @ [embedding_post token (JStr t) None])
       \<and> EmbeddingTools_generate_embedding w (Some token) (JStr t) None tr =
           ([status_success, (''embedding'', JArr []), (''model'', JStr DEFAULT_MODEL)],
            tr @ [embedding_post token (JStr t) None])
       \<and> text_similarity_search w token idx t k s tr =
           (Inr [status_error,
                 (''message'', JStr ''Vector dimension mismatch. Expected 1024, got 0'')],
            tr @ [embedding_post token (JStr t) None])
       \<and> (\<exists>action sent.
             snd (bulk_index_with_embeddings w (Some token) idx [doc] ''text'' tr) =
               tr @ [embedding_post token (JStr t) None,
                     Bulk [JObj [(''index'', JObj action)], JObj sent] True]
           \<and> action = (if dict_has doc ''_id''
                        then [(''_index'', JStr idx), (''_id'', dict_get doc ''_id'' JNull)]
                        else [(''_index'', JStr idx)])
           \<and> sent = (if dict_has doc ''_id'' then dict_pop (dict_set doc ''dense_vector'' (JArr [])) ''_id''
                      else dict_set doc ''dense_vector'' (JArr []))
           \<and> map_of sent ''dense_vector'' = Some (JArr [])
           \<and> map_of sent ''text'' = Some (JStr t)
           \<and> (\<forall>key. key \<noteq> ''dense_vector'' \<and> key \<noteq> ''_id'' \<longrightarrow> map_of sent key = map_of doc key)
           \<and> (store w (tr @ [embedding_post token (JStr t) None])
                  (Bulk [JObj [(''index'', JObj action)], JObj sent] True) = Inr resp
                \<longrightarrow> fst (bulk_index_with_embeddings w (Some token) idx [doc] ''text'' tr) =
                      [status_success, (''response'', resp), (''processed_count'', JInt 1),
                       (''failed_count'', JInt 0), (''failed_docs'', JNull)]))"
proof -
  let ?tr1 = "tr @ [embedding_post token (JStr t) None]"
  let ?d = "dict_set doc ''dense_vector'' (JArr [])"
  let ?action = "if dict_has doc ''_id''
                 then [(''_index'', JStr idx), (''_id'', dict_get doc ''_id'' JNull)]
                 else [(''_index'', JStr idx)]"
  let ?sent = "if dict_has doc ''_id'' then dict_pop ?d ''_id'' else ?d"
  from embedding_try_lacking [OF assms(2-5)]
  have e: "embedding_try w token (JStr t) None tr =
           ([status_success, (''embedding'', JArr []), (''model'', JStr DEFAULT_MODEL)], ?tr1)"
    by (simp add: model_name_def)
  from e assms(1) have g: "generate_embedding w token t None tr =
           ([status_success, (''embedding'', JArr []), (''model'', JStr DEFAULT_MODEL)], ?tr1)"
    by (simp add: generate_embedding_def)
  from e assms(1) have c: "EmbeddingTools_generate_embedding w (Some token) (JStr t) None tr =
           ([status_success, (''embedding'', JArr []), (''model'', JStr DEFAULT_MODEL)], ?tr1)"
    by (simp add: EmbeddingTools_generate_embedding_def)
  have k: "knn_search w idx (JArr []) k ?tr1 =
             ([status_error,
               (''message'', JStr ''Vector dimension mismatch. Expected 1024, got 0'')], ?tr1)"
    by (simp add: knn_search_def show_nat_1024 show_nat_0)
  from g k have s: "text_similarity_search w token idx t k s tr =
           (Inr [status_error,
                 (''message'', JStr ''Vector dimension mismatch. Expected 1024, got 0'')], ?tr1)"
    by (simp add: text_similarity_search_def dict_item_def)
  from c assms(6) have l: "embed_documents w (Some token) ''text'' [doc] [] [] tr =
      (Inr ([?d], []), ?tr1)"
    by (simp add: dict_has_def dict_item_def)
  have hid: "dict_has ?d ''_id'' = dict_has doc ''_id''"
    by (rule dict_has_dict_set_other) simp
  have gid: "dict_get ?d ''_id'' JNull = dict_get doc ''_id'' JNull"
    by (simp add: dict_get_def map_of_dict_set)
  have bd: "bulk_data idx [?d] = [JObj [(''index'', JObj ?action)], JObj ?sent]"
    by (simp add: hid gid)
  have m1: "map_of ?sent ''dense_vector'' = Some (JArr [])"
    by (simp add: map_of_dict_pop map_of_dict_set)
  have m2: "map_of ?sent ''text'' = Some (JStr t)"
    using assms(6) by (simp add: map_of_dict_pop map_of_dict_set)
  have m3: "\<forall>key. key \<noteq> ''dense_vector'' \<and> key \<noteq> ''_id'' \<longrightarrow> map_of ?sent key = map_of doc key"
    by (simp add: map_of_dict_pop map_of_dict_set)
  from l bd have b1: "snd (bulk_index_with_embeddings w (Some token) idx [doc] ''text'' tr) =
           tr @ [embedding_post token (JStr t) None,
                 Bulk [JObj [(''index'', JObj ?action)], JObj ?sent] True]"
    by (simp add: bulk_index_with_embeddings_def store_call_def split: sum.splits)
  from l bd have b2: "store w ?tr1 (Bulk [JObj [(''index'', JObj ?action)], JObj ?sent] True) = Inr resp
            \<longrightarrow> fst (bulk_index_with_embeddings w (Some token) idx [doc] ''text'' tr) =
                  [status_success, (''response'', resp), (''processed_count'', JInt 1),
                   (''failed_count'', JInt 0), (''failed_docs'', JNull)]"
    by (simp add: bulk_index_with_embeddings_def store_call_def)
  have w: "\<exists>action sent.
             snd (bulk_index_with_embeddings w (Some token) idx [doc] ''text'' tr) =
               tr @ [embedding_post token (JStr t) None,
                     Bulk [JObj [(''index'', JObj action)], JObj sent] True]
           \<and> action = (if dict_has doc ''_id''
                        then [(''_index'', JStr idx), (''_id'', dict_get doc ''_id'' JNull)]
                        else [(''_index'', JStr idx)])
           \<and> sent = (if dict_has doc ''_id'' then dict_pop (dict_set doc ''dense_vector'' (JArr [])) ''_id''
                      else dict_set doc ''dense_vector'' (JArr []))
           \<and> map_of sent ''dense_vector'' = Some (JArr [])
           \<and> map_of sent ''text'' = Some (JStr t)
           \<and> (\<forall>key. key \<noteq> ''dense_vector'' \<and> key \<noteq> ''_id'' \<longrightarrow> map_of sent key = map_of doc key)
           \<and> (store w (tr @ [embedding_post token (JStr t) None])
                  (Bulk [JObj [(''index'', JObj action)], JObj sent] True) = Inr resp
                \<longrightarrow> fst (bulk_index_with_embeddings w (Some token) idx [doc] ''text'' tr) =
                      [status_success, (''response'', resp), (''processed_count'', JInt 1),
                       (''failed_count'', JInt 0), (''failed_docs'', JNull)])"
  proof (intro exI conjI)
    show "snd (bulk_index_with_embeddings w (Some token) idx [doc] ''text'' tr) =
           tr @ [embedding_post token (JStr t) None,
                 Bulk [JObj [(''index'', JObj ?action)], JObj ?sent] True]"
      by (rule b1)
    show "?action = ?action" by (rule refl)
    show "?sent = ?sent" by (rule refl)
    show "map_of ?sent ''dense_vector'' = Some (JArr [])" by (rule m1)
    show "map_of ?sent ''text'' = Some (JStr t)" by (rule m2)
    show "\<forall>key. key \<noteq> ''dense_vector'' \<and> key \<noteq> ''_id'' \<longrightarrow> map_of ?sent key = map_of doc key"
      by (rule m3)
    show "store w ?tr1 (Bulk [JObj [(''index'', JObj ?action)], JObj ?sent] True) = Inr resp
            \<longrightarrow> fst (bulk_index_with_embeddings w (Some token) idx [doc] ''text'' tr) =
                  [status_success, (''response'', resp), (''processed_count'', JInt 1),
                   (''failed_count'', JInt 0), (''failed_docs'', JNull)]"
      by (rule b2)
  qed
  show ?thesis
  proof (intro conjI)
    show "generate_embedding w token t None tr =
           ([status_success, (''embedding'', JArr []), (''model'', JStr DEFAULT_MODEL)],
            tr @ [embedding_post token (JStr t) None])" by (rule g)
    show "EmbeddingTools_generate_embedding w (Some token) (JStr t) None tr =
           ([status_success, (''embedding'', JArr []), (''model'', JStr DEFAULT_MODEL)],
            tr @ [embedding_post token (JStr t) None])" by (rule c)
    show "text_similarity_search w token idx t k s tr =
           (Inr [status_error,
                 (''message'', JStr ''Vector dimension mismatch. Expected 1024, got 0'')],
            tr @ [embedding_post token (JStr t) None])" by (rule s)
  next
    from w show "\<exists>action sent.
             snd (bulk_index_with_embeddings w (Some token) idx [doc] ''text'' tr) =
               tr @ [embedding_post token (JStr t) None,
                     Bulk [JObj [(''index'', JObj action)], JObj sent] True]
           \<and> action = (if dict_has doc ''_id''
                        then [(''_index'', JStr idx), (''_id'', dict_get doc ''_id'' JNull)]
                        else [(''_index'', JStr idx)])
           \<and> sent = (if dict_has doc ''_id'' then dict_pop (dict_set doc ''dense_vector'' (JArr [])) ''_id''
                      else dict_set doc ''dense_vector'' (JArr []))
           \<and> map_of sent ''dense_vector'' = Some (JArr [])
           \<and> map_of sent ''text'' = Some (JStr t)
           \<and> (\<forall>key. key \<noteq> ''dense_vector'' \<and> key \<noteq> ''_id'' \<longrightarrow> map_of sent key = map_of doc key)
           \<and> (store w (tr @ [embedding_post token (JStr t) None])
                  (Bulk [JObj [(''index'', JObj action)], JObj sent] True) = Inr resp
                \<longrightarrow> fst (bulk_index_with_embeddings w (Some token) idx [doc] ''text'' tr) =
                      [status_success, (''response'', resp), (''processed_count'', JInt 1),
                       (''failed_count'', JInt 0), (''failed_docs'', JNull)])" .
  qed
qed

text \<open>
  An API that answers every request with the empty object, and a document with an id:
  the bulk request carries the document with the empty vector.
\<close>

theorem empty_embedding_reported_as_success_witness:
  "generate_embedding
      (example_world (\<lambda>tr c. body_response (JObj []))
         (kb_store [] example_hits (Inr (JObj [(''errors'', JBool False)]))))
      ''token'' ''query'' None [] =
     ([status_success, (''embedding'', JArr []), (''model'', JStr DEFAULT_MODEL)],
      [embedding_post ''token'' (JStr ''query'') None])
   \<and> text_similarity_search
      (example_world (\<lambda>tr c. body_response (JObj []))
         (kb_store [] example_hits (Inr (JObj [(''errors'', JBool False)]))))
      ''token'' ''kb'' ''query'' 10 (Finite 0) [] =
     (Inr [status_error, (''message'', JStr ''Vector dimension mismatch. Expected 1024, got 0'')],
      [embedding_post ''token'' (JStr ''query'') None])
   \<and> bulk_index_with_embeddings
      (example_world (\<lambda>tr c. body_response (JObj []))
         (kb_store [] example_hits (Inr (JObj [(''errors'', JBool False)]))))
      (Some ''token'') ''kb'' [[(''_id'', JStr ''d1''), (''text'', JStr ''query'')]] ''text'' [] =
     ([status_success, (''response'', JObj [(''errors'', JBool False)]), (''processed_count'', JInt 1),
       (''failed_count'', JInt 0), (''failed_docs'', JNull)],
      [embedding_post ''token'' (JStr ''query'') None,
       Bulk [JObj [(''index'', JObj [(''_index'', JStr ''kb''), (''_id'', JStr ''d1'')])],
             JObj [(''text'', JStr ''query''), (''dense_vector'', JArr [])]] True])"
proof -
  let ?w = "example_world (\<lambda>tr c. body_response (JObj []))
              (kb_store [] example_hits (Inr (JObj [(''errors'', JBool False)])))"
  let ?r = "\<lparr>http_error = None, json_body = Inr (JObj [])\<rparr>"
  let ?doc = "[(''_id'', JStr ''d1''), (''text'', JStr ''query'')]"
  let ?resp = "JObj [(''errors'', JBool False)]"
  have h1: "''token'' \<noteq> []" by simp
  have h2: "http_post ?w [] (embedding_post ''token'' (JStr ''query'') None) = Inr ?r"
    by (simp add: example_world_def body_response_def)
  have h3: "http_error ?r = None" by simp
  have h4: "json_body ?r = Inr (JObj [])" by simp
  have h5: "map_of ([] :: dict) ''data'' = None
           \<or> (\<exists>item rest. map_of ([] :: dict) ''data'' = Some (JArr (JObj item # rest))
                \<and> map_of item ''embedding'' = None)" by simp
  have h6: "map_of ?doc ''text'' = Some (JStr ''query'')" by simp
  note inst = empty_embedding_reported_as_success [OF h1 h2 h3 h4 h5 h6, of "''kb''" 10 "Finite 0" ?resp]
  from inst have a: "generate_embedding ?w ''token'' ''query'' None [] =
     ([status_success, (''embedding'', JArr []), (''model'', JStr DEFAULT_MODEL)],
      [embedding_post ''token'' (JStr ''query'') None])"
    by simp
  from inst have b: "text_similarity_search ?w ''token'' ''kb'' ''query'' 10 (Finite 0) [] =
     (Inr [status_error, (''message'', JStr ''Vector dimension mismatch. Expected 1024, got 0'')],
      [embedding_post ''token'' (JStr ''query'') None])"
    by simp
  from inst obtain action sent where
    t: "snd (bulk_index_with_embeddings ?w (Some ''token'') ''kb'' [?doc] ''text'' []) =
          [] @ [embedding_post ''token'' (JStr ''query'') None,
                Bulk [JObj [(''index'', JObj action)], JObj sent] True]" and
    ac: "action = (if dict_has ?doc ''_id''
                   then [(''_index'', JStr ''kb''), (''_id'', dict_get ?doc ''_id'' JNull)]
                   else [(''_index'', JStr ''kb'')])" and
    se: "sent = (if dict_has ?doc ''_id'' then dict_pop (dict_set ?doc ''dense_vector'' (JArr [])) ''_id''
                 else dict_set ?doc ''dense_vector'' (JArr []))" and
    f: "store ?w ([] @ [embedding_post ''token'' (JStr ''query'') None])
              (Bulk [JObj [(''index'', JObj action)], JObj sent] True) = Inr ?resp
          \<longrightarrow> fst (bulk_index_with_embeddings ?w (Some ''token'') ''kb'' [?doc] ''text'' []) =
                [status_success, (''response'', ?resp), (''processed_count'', JInt 1),
                 (''failed_count'', JInt 0), (''failed_docs'', JNull)]"
    by blast
  have st: "store ?w ([] @ [embedding_post ''token'' (JStr ''query'') None])
              (Bulk [JObj [(''index'', JObj action)], JObj sent] True) = Inr ?resp"
    by (simp add: example_world_def)
  from ac have ac': "action = [(''_index'', JStr ''kb''), (''_id'', JStr ''d1'')]"
    by (simp add: dict_has_def dict_get_def)
  from se have se': "sent = [(''text'', JStr ''query''), (''dense_vector'', JArr [])]"
    by (simp add: dict_has_def dict_pop_def)
  from f st t ac' se' have c: "bulk_index_with_embeddings ?w (Some ''token'') ''kb'' [?doc] ''text'' [] =
     ([status_success, (''response'', ?resp), (''processed_count'', JInt 1),
       (''failed_count'', JInt 0), (''failed_docs'', JNull)],
      [embedding_post ''token'' (JStr ''query'') None,
       Bulk [JObj [(''index'', JObj [(''_index'', JStr ''kb''), (''_id'', JStr ''d1'')])],
             JObj [(''text'', JStr ''query''), (''dense_vector'', JArr [])]] True])"
    by (simp add: prod_eq_iff)
  from a b c show ?thesis by simp
qed

subsection \<open>C2: the outcome of a batch\<close>

text \<open>
  C2, as stated, fails: the status is \<open>error\<close> also when documents were embedded and
  the bulk request raises. Here one document is embedded successfully and the store
  refuses the connection.
\<close>

theorem bulk_index_error_counterexample:
  "dict_item
     (fst (bulk_index_with_embeddings
             (example_world (embedding_api [])
                (kb_store [] example_hits (Inl (OSConnectionError ''ConnectionError(refused)''))))
             (Some ''token'') ''kb'' [[(''text'', JStr ''alpha'')]] ''text'' []))
     ''status'' = Inr (JStr ''error'')
   \<and> embedded_ok
        (example_world (embedding_api [])
           (kb_store [] example_hits (Inl (OSConnectionError ''ConnectionError(refused)''))))
        (Some ''token'') ''text'' [[(''text'', JStr ''alpha'')]] [] = [True]"
  by (simp add: bulk_index_with_embeddings_def tools_embedding_example dict_has_def dict_item_def
        dict_get_def store_call_def)
     (simp add: example_world_def bulk_except_def)

text \<open>
  C2, amended. \<open>bulk_index_with_embeddings\<close> embeds every document of the batch, a
  failure being recorded and the loop going on: the processed documents are the
  documents embedded successfully, each with its vector, and \<open>failed_docs\<close> has one
  entry \<open>{doc, reason}\<close> for each of the others, both in the order of the batch. When
  no document was embedded successfully the status is \<open>error\<close> (\<open>No documents were
  processed successfully\<close>, with the failures) and nothing is sent to the store. When
  at least one was, one bulk request is sent: if it returns, the status is \<open>success\<close>
  with \<open>processed_count\<close> the number of documents embedded, \<open>failed_count\<close> the number
  of failures and \<open>failed_docs\<close> the failures (\<open>None\<close> when there are none); if it
  raises, the status is \<open>error\<close> (\<open>Bulk indexing error: ...\<close>).
\<close>

theorem bulk_index_outcomes:
  "\<exists>p f tr1.
     embed_documents w api_token text_field documents [] [] tr = (Inr (p, f), tr1)
   \<and> list_all2 (\<lambda>pd d. \<exists>emb. pd = dict_set d ''dense_vector'' emb) p
        (flagged True (embedded_ok w api_token text_field documents tr) documents)
   \<and> list_all2 (\<lambda>fd d. \<exists>reason. fd = JObj [(''doc'', JObj d), (''reason'', JStr reason)]) f
        (flagged False (embedded_ok w api_token text_field documents tr) documents)
   \<and> length p = count_list (embedded_ok w api_token text_field documents tr) True
   \<and> length f = count_list (embedded_ok w api_token text_field documents tr) False
   \<and> (True \<notin> set (embedded_ok w api_token text_field documents tr) \<longrightarrow>
        bulk_index_with_embeddings w api_token idx documents text_field tr =
          ([status_error, (''message'', JStr ''No documents were processed successfully''),
            (''failed_docs'', JArr f)], tr1)
        \<and> \<not> list_ex is_store_call (drop (length tr) tr1))
   \<and> (True \<in> set (embedded_ok w api_token text_field documents tr)
        \<and> store w tr1 (Bulk (bulk_data idx p) True) = Inr resp \<longrightarrow>
        bulk_index_with_embeddings w api_token idx documents text_field tr =
          ([status_success, (''response'', resp),
            (''processed_count'',
             JInt (int (count_list (embedded_ok w api_token text_field documents tr) True))),
            (''failed_count'',
             JInt (int (count_list (embedded_ok w api_token text_field documents tr) False))),
            (''failed_docs'', if f \<noteq> [] then JArr f else JNull)],
           tr1 @ [Bulk (bulk_data idx p) True]))
   \<and> (True \<in> set (embedded_ok w api_token text_field documents tr)
        \<and> store w tr1 (Bulk (bulk_data idx p) True) = Inl e \<longrightarrow>
        bulk_index_with_embeddings w api_token idx documents text_field tr =
          ([status_error, (''message'', JStr (''Bulk indexing error: '' @ str_exn e))],
           tr1 @ [Bulk (bulk_data idx p) True]))"
proof -
  let ?flags = "embedded_ok w api_token text_field documents tr"
  from embed_documents_result [of w api_token text_field documents "[]" "[]" tr]
  obtain p f tr1 where
    e: "embed_documents w api_token text_field documents [] [] tr = (Inr (p, f), tr1)" and
    p: "list_all2 (\<lambda>pd d. \<exists>emb. pd = dict_set d ''dense_vector'' emb) p
          (flagged True ?flags documents)" and
    f: "list_all2 (\<lambda>fd d. \<exists>reason. fd = JObj [(''doc'', JObj d), (''reason'', JStr reason)]) f
          (flagged False ?flags documents)"
    by auto
  have len: "length ?flags = length documents" by (rule embedded_ok_length)
  from p have lp: "length p = count_list ?flags True"
    by (simp add: list_all2_lengthD flagged_length [OF len])
  from f have lf: "length f = count_list ?flags False"
    by (simp add: list_all2_lengthD flagged_length [OF len])
  from lp have pe: "p = [] \<longleftrightarrow> True \<notin> set ?flags"
    using count_list_True_0 [of ?flags] by auto
  from embed_documents_trace [of w api_token text_field documents "[]" "[]" tr] e
  have tr1: "\<not> list_ex is_store_call (drop (length tr) tr1)" by auto
  have a: "True \<notin> set ?flags \<longrightarrow>
        bulk_index_with_embeddings w api_token idx documents text_field tr =
          ([status_error, (''message'', JStr ''No documents were processed successfully''),
            (''failed_docs'', JArr f)], tr1)
        \<and> \<not> list_ex is_store_call (drop (length tr) tr1)"
    using e pe tr1 by (simp add: bulk_index_with_embeddings_def)
  have b: "True \<in> set ?flags \<and> store w tr1 (Bulk (bulk_data idx p) True) = Inr resp \<longrightarrow>
        bulk_index_with_embeddings w api_token idx documents text_field tr =
          ([status_success, (''response'', resp),
            (''processed_count'', JInt (int (count_list ?flags True))),
            (''failed_count'', JInt (int (count_list ?flags False))),
            (''failed_docs'', if f \<noteq> [] then JArr f else JNull)],
           tr1 @ [Bulk (bulk_data idx p) True])"
    using e pe lp lf by (simp add: bulk_index_with_embeddings_def store_call_def)
  have c: "True \<in> set ?flags \<and> store w tr1 (Bulk (bulk_data idx p) True) = Inl e \<longrightarrow>
        bulk_index_with_embeddings w api_token idx documents text_field tr =
          ([status_error, (''message'', JStr (''Bulk indexing error: '' @ str_exn e))],
           tr1 @ [Bulk (bulk_data idx p) True])"
    using e pe by (simp add: bulk_index_with_embeddings_def store_call_def bulk_except_def)
  from e p f lp lf a b c show ?thesis by blast
qed

text \<open>
  Three chunks, the embedding of the second refused: two processed, one failed, status
  \<open>success\<close>.
\<close>

theorem bulk_index_outcomes_witness:
  "embedded_ok
      (example_world (embedding_api [''beta'']) (kb_store [] example_hits (Inr (JObj [(''errors'', JBool False)]))))
      (Some ''token'') ''text''
      [[(''text'', JStr ''alpha'')], [(''text'', JStr ''beta'')], [(''text'', JStr ''gamma'')]] []
     = [True, False, True]
   \<and> (\<exists>f. fst (bulk_index_with_embeddings
      (example_world (embedding_api [''beta'']) (kb_store [] example_hits (Inr (JObj [(''errors'', JBool False)]))))
      (Some ''token'') ''kb''
      [[(''text'', JStr ''alpha'')], [(''text'', JStr ''beta'')], [(''text'', JStr ''gamma'')]] ''text'' [])
     = [status_success, (''response'', JObj [(''errors'', JBool False)]),
        (''processed_count'', JInt 2), (''failed_count'', JInt 1), (''failed_docs'', JArr f)]
       \<and> length f = 1)"
proof -
  let ?w = "example_world (embedding_api [''beta''])
              (kb_store [] example_hits (Inr (JObj [(''errors'', JBool False)])))"
  let ?docs = "[[(''text'', JStr ''alpha'')], [(''text'', JStr ''beta'')], [(''text'', JStr ''gamma'')]]"
  have flags: "embedded_ok ?w (Some ''token'') ''text'' ?docs [] = [True, False, True]"
    by (simp add: tools_embedding_example dict_has_def dict_get_def)
  from bulk_index_outcomes [of ?w "Some ''token''" "''text''" ?docs "[]" "''kb''"
          "JObj [(''errors'', JBool False)]" "OtherException ''x''"]
  obtain p f tr1 where
    lf: "length f = count_list (embedded_ok ?w (Some ''token'') ''text'' ?docs []) False" and
    b: "True \<in> set (embedded_ok ?w (Some ''token'') ''text'' ?docs [])
        \<and> store ?w tr1 (Bulk (bulk_data ''kb'' p) True) = Inr (JObj [(''errors'', JBool False)]) \<longrightarrow>
        bulk_index_with_embeddings ?w (Some ''token'') ''kb'' ?docs ''text'' [] =
          ([status_success, (''response'', JObj [(''errors'', JBool False)]),
            (''processed_count'',
             JInt (int (count_list (embedded_ok ?w (Some ''token'') ''text'' ?docs []) True))),
            (''failed_count'',
             JInt (int (count_list (embedded_ok ?w (Some ''token'') ''text'' ?docs []) False))),
            (''failed_docs'', if f \<noteq> [] then JArr f else JNull)],
           tr1 @ [Bulk (bulk_data ''kb'' p) True])"
    by blast
  have s: "store ?w tr1 (Bulk (bulk_data ''kb'' p) True) = Inr (JObj [(''errors'', JBool False)])"
    by (simp add: example_world_def)
  from lf flags have f1: "length f = 1" by simp
  then have "f \<noteq> []" by auto
  with b s flags f1 have "fst (bulk_index_with_embeddings ?w (Some ''token'') ''kb'' ?docs ''text'' [])
     = [status_success, (''response'', JObj [(''errors'', JBool False)]),
        (''processed_count'', JInt 2), (''failed_count'', JInt 1), (''failed_docs'', JArr f)]"
    by simp
  with flags f1 show ?thesis by blast
qed

subsection \<open>C6: the documents built from the chunks of a file\<close>

text \<open>
  C6. From a file whose text splits into the chunks \<open>chunks\<close>, \<open>process_file\<close> builds
  as many documents as there are chunks; the document at position \<open>i\<close> has the
  \<open>i\<close>-th chunk as its \<open>text\<close>, and in its \<open>metadata\<close> \<open>chunk_index = i\<close> (from 0),
  \<open>chunk_count\<close> the number of chunks, \<open>source\<close> the file path and \<open>filename\<close> the
  base name of the path (what follows its last slash), and under every other key what
  the caller's metadata has there. When the index is ensured, the file read and the
  text split, these documents are what \<open>process_file\<close> hands to
  \<open>bulk_index_with_embeddings\<close>, whose result it returns.
\<close>

theorem chunk_documents_metadata:
  "length (chunk_documents file_path metadata chunks) = length chunks
   \<and> (\<forall>i < length chunks. \<exists>m.
          chunk_documents file_path metadata chunks ! i
            = [(''text'', JStr (chunks ! i)), (''metadata'', JObj m)]
        \<and> map_of m ''chunk_index'' = Some (JInt (int i))
        \<and> map_of m ''chunk_count'' = Some (JInt (int (length chunks)))
        \<and> map_of m ''source'' = Some (JStr file_path)
        \<and> map_of m ''filename'' = Some (JStr (basename file_path))
        \<and> (\<forall>key. key \<notin> {''chunk_index'', ''chunk_count'', ''source'', ''filename''} \<longrightarrow>
               map_of m key = map_of (case metadata of Some given \<Rightarrow> given | None \<Rightarrow> []) key))
   \<and> (CHR ''/'' \<notin> set name \<longrightarrow> basename (dir @ CHR ''/'' # name) = name)
   \<and> (create_index_if_not_exists w idx tr = (Inr (), tr') \<and> read_file w file_path = Inr content
        \<and> split_text w content = Inr chunks \<longrightarrow>
        process_file w api_token idx file_path metadata tr =
          bulk_index_with_embeddings w api_token idx
            (chunk_documents file_path metadata chunks) ''text'' tr')"
proof (intro conjI)
  show "length (chunk_documents file_path metadata chunks) = length chunks"
    by (simp add: chunk_documents_def)
  show "\<forall>i < length chunks. \<exists>m.
          chunk_documents file_path metadata chunks ! i
            = [(''text'', JStr (chunks ! i)), (''metadata'', JObj m)]
        \<and> map_of m ''chunk_index'' = Some (JInt (int i))
        \<and> map_of m ''chunk_count'' = Some (JInt (int (length chunks)))
        \<and> map_of m ''source'' = Some (JStr file_path)
        \<and> map_of m ''filename'' = Some (JStr (basename file_path))
        \<and> (\<forall>key. key \<notin> {''chunk_index'', ''chunk_count'', ''source'', ''filename''} \<longrightarrow>
               map_of m key = map_of (case metadata of Some given \<Rightarrow> given | None \<Rightarrow> []) key)"
  proof (intro allI impI)
    fix i assume i: "i < length chunks"
    let ?m = "dict_set (dict_set (base_metadata file_path metadata) ''chunk_index'' (JInt (int i)))
                ''chunk_count'' (JInt (int (length chunks)))"
    from i have d: "chunk_documents file_path metadata chunks ! i
            = [(''text'', JStr (chunks ! i)), (''metadata'', JObj ?m)]"
      by (simp add: chunk_documents_def chunk_doc_def nth_enumerate_eq)
    have k: "map_of ?m ''chunk_index'' = Some (JInt (int i))
        \<and> map_of ?m ''chunk_count'' = Some (JInt (int (length chunks)))
        \<and> map_of ?m ''source'' = Some (JStr file_path)
        \<and> map_of ?m ''filename'' = Some (JStr (basename file_path))"
      by (simp add: map_of_dict_set base_metadata_def)
    have o: "\<forall>key. key \<notin> {''chunk_index'', ''chunk_count'', ''source'', ''filename''} \<longrightarrow>
               map_of ?m key = map_of (case metadata of Some given \<Rightarrow> given | None \<Rightarrow> []) key"
      by (auto simp: map_of_dict_set base_metadata_def split: option.splits)
    from d k o show "\<exists>m.
          chunk_documents file_path metadata chunks ! i
            = [(''text'', JStr (chunks ! i)), (''metadata'', JObj m)]
        \<and> map_of m ''chunk_index'' = Some (JInt (int i))
        \<and> map_of m ''chunk_count'' = Some (JInt (int (length chunks)))
        \<and> map_of m ''source'' = Some (JStr file_path)
        \<and> map_of m ''filename'' = Some (JStr (basename file_path))
        \<and> (\<forall>key. key \<notin> {''chunk_index'', ''chunk_count'', ''source'', ''filename''} \<longrightarrow>
               map_of m key = map_of (case metadata of Some given \<Rightarrow> given | None \<Rightarrow> []) key)"
      by blast
  qed
  show "CHR ''/'' \<notin> set name \<longrightarrow> basename (dir @ CHR ''/'' # name) = name"
    by (simp add: basename_append)
  show "create_index_if_not_exists w idx tr = (Inr (), tr') \<and> read_file w file_path = Inr content
        \<and> split_text w content = Inr chunks \<longrightarrow>
        process_file w api_token idx file_path metadata tr =
          bulk_index_with_embeddings w api_token idx
            (chunk_documents file_path metadata chunks) ''text'' tr'"
    using bulk_result_logged
            [of w api_token idx "chunk_documents file_path metadata chunks" "''text''" "tr'"]
    by (auto simp: process_file_def split: prod.splits)
qed

text \<open>A file of two chunks with the caller's metadata \<open>{lang: en}\<close>.\<close>

theorem chunk_documents_metadata_witness:
  "chunk_documents ''docs/a.txt'' (Some [(''lang'', JStr ''en'')]) [''alpha'', ''beta''] ! 1 =
     [(''text'', JStr ''beta''),
      (''metadata'', JObj [(''lang'', JStr ''en''), (''source'', JStr ''docs/a.txt''),
                           (''filename'', JStr ''a.txt''), (''chunk_index'', JInt 1),
                           (''chunk_count'', JInt 2)])]
   \<and> basename (''docs'' @ CHR ''/'' # ''a.txt'') = ''a.txt''
   \<and> process_file (example_world (embedding_api []) (kb_store [] example_hits (Inr JNull)))
        (Some ''token'') ''kb'' ''docs/a.txt'' (Some [(''lang'', JStr ''en'')]) [] =
      bulk_index_with_embeddings (example_world (embedding_api []) (kb_store [] example_hits (Inr JNull)))
        (Some ''token'') ''kb''
        (chunk_documents ''docs/a.txt'' (Some [(''lang'', JStr ''en'')]) [''alpha'', ''beta''])
        ''text'' [IndicesExists ''kb'']"
proof -
  let ?w = "example_world (embedding_api []) (kb_store [] example_hits (Inr JNull))"
  let ?md = "Some [(''lang'', JStr ''en'')]"
  note inst = chunk_documents_metadata
    [where file_path = "''docs/a.txt''" and metadata = ?md and chunks = "[''alpha'', ''beta'']"
       and name = "''a.txt''" and dir = "''docs''" and w = ?w and idx = "''kb''" and tr = "[]"
       and tr' = "[IndicesExists ''kb'']" and content = "''alpha beta''"
       and api_token = "Some ''token''"]
  have c: "create_index_if_not_exists ?w ''kb'' [] = (Inr (), [IndicesExists ''kb''])"
    by (simp add: create_index_if_not_exists_def store_call_def example_world_def)
  have r: "read_file ?w ''docs/a.txt'' = Inr ''alpha beta''"
    by (simp add: example_world_def)
  have s: "split_text ?w ''alpha beta'' = Inr [''alpha'', ''beta'']"
    by (simp add: example_world_def)
  have n: "CHR ''/'' \<notin> set ''a.txt''" by simp
  from inst c r s have p: "process_file ?w (Some ''token'') ''kb'' ''docs/a.txt'' ?md [] =
      bulk_index_with_embeddings ?w (Some ''token'') ''kb''
        (chunk_documents ''docs/a.txt'' ?md [''alpha'', ''beta'']) ''text'' [IndicesExists ''kb'']"
    by blast
  from inst n have b: "basename (''docs'' @ CHR ''/'' # ''a.txt'') = ''a.txt''"
    by blast
  have d: "chunk_documents ''docs/a.txt'' ?md [''alpha'', ''beta''] ! 1 =
     [(''text'', JStr ''beta''),
      (''metadata'', JObj [(''lang'', JStr ''en''), (''source'', JStr ''docs/a.txt''),
                           (''filename'', JStr ''a.txt''), (''chunk_index'', JInt 1),
                           (''chunk_count'', JInt 2)])]"
    by (simp add: chunk_documents_def chunk_doc_def base_metadata_def basename_def enumerate_eq_zip
          upt_rec)
  from p b d show ?thesis by blast
qed

subsection \<open>C9: ensuring the index twice\<close>

text \<open>
  C9. Against a store that is reachable and keeps its indices, calling
  \<open>create_index_if_not_exists\<close> twice in succession raises nothing; the first call
  creates the index only if it is absent, the second call sees that it exists and sends
  no create, so at most one create is sent and the index exists afterwards. Whatever
  the store, a call that is told the index exists sends no create, and a call that is
  told it is absent sends one create with the mapping of the source: a \<open>knn_vector\<close>
  of dimension 1024, HNSW, inner product, \<open>ef_construction = 32\<close>, \<open>m = 16\<close>, and
  \<open>ef_search = 32\<close> in the index settings.
\<close>

theorem create_index_idempotent:
  "(store w = honest_store init \<longrightarrow>
      (\<exists>tr1. create_index_if_not_exists w idx tr = (Inr (), tr1)
         \<and> tr1 = tr @ (if index_present init tr idx then [IndicesExists idx]
                        else [IndicesExists idx, IndicesCreate idx (Some mapping)])
         \<and> create_index_if_not_exists w idx tr1 = (Inr (), tr1 @ [IndicesExists idx])
         \<and> length (filter is_create (drop (length tr) (tr1 @ [IndicesExists idx]))) \<le> 1
         \<and> index_present init tr1 idx))
   \<and> (store w tr (IndicesExists idx) = Inr v \<and> truthy v \<longrightarrow>
        create_index_if_not_exists w idx tr = (Inr (), tr @ [IndicesExists idx]))
   \<and> (store w tr (IndicesExists idx) = Inr v \<and> \<not> truthy v \<longrightarrow>
        snd (create_index_if_not_exists w idx tr)
          = tr @ [IndicesExists idx, IndicesCreate idx (Some mapping)])
   \<and> json_path mapping [''mappings'', ''properties'', ''dense_vector'', ''type''] = Some (JStr ''knn_vector'')
   \<and> json_path mapping [''mappings'', ''properties'', ''dense_vector'', ''dimension''] = Some (JInt 1024)
   \<and> json_path mapping [''mappings'', ''properties'', ''dense_vector'', ''method'', ''name'']
        = Some (JStr ''hnsw'')
   \<and> json_path mapping [''mappings'', ''properties'', ''dense_vector'', ''method'', ''space_type'']
        = Some (JStr ''innerproduct'')
   \<and> json_path mapping [''mappings'', ''properties'', ''dense_vector'', ''method'', ''parameters'',
                         ''ef_construction''] = Some (JInt 32)
   \<and> json_path mapping [''mappings'', ''properties'', ''dense_vector'', ''method'', ''parameters'', ''m'']
        = Some (JInt 16)
   \<and> json_path mapping [''settings'', ''index'', ''knn.algo_param.ef_search''] = Some (JInt 32)
   \<and> json_path mapping [''settings'', ''index'', ''knn''] = Some (JBool True)"
proof (intro conjI)
  show "store w = honest_store init \<longrightarrow>
      (\<exists>tr1. create_index_if_not_exists w idx tr = (Inr (), tr1)
         \<and> tr1 = tr @ (if index_present init tr idx then [IndicesExists idx]
                        else [IndicesExists idx, IndicesCreate idx (Some mapping)])
         \<and> create_index_if_not_exists w idx tr1 = (Inr (), tr1 @ [IndicesExists idx])
         \<and> length (filter is_create (drop (length tr) (tr1 @ [IndicesExists idx]))) \<le> 1
         \<and> index_present init tr1 idx)"
    by (cases "index_present init tr idx")
       (auto simp: create_index_if_not_exists_def store_call_def index_present_def)
  show "store w tr (IndicesExists idx) = Inr v \<and> truthy v \<longrightarrow>
        create_index_if_not_exists w idx tr = (Inr (), tr @ [IndicesExists idx])"
    by (simp add: create_index_if_not_exists_def store_call_def)
  show "store w tr (IndicesExists idx) = Inr v \<and> \<not> truthy v \<longrightarrow>
        snd (create_index_if_not_exists w idx tr)
          = tr @ [IndicesExists idx, IndicesCreate idx (Some mapping)]"
    by (simp add: create_index_if_not_exists_def store_call_def split: sum.splits)
qed (simp_all add: mapping_def)

text \<open>An empty store: the first call creates the index, the second only asks.\<close>

theorem create_index_idempotent_witness:
  "create_index_if_not_exists (example_world (embedding_api []) (honest_store [])) ''kb'' [] =
     (Inr (), [IndicesExists ''kb'', IndicesCreate ''kb'' (Some mapping)])
   \<and> create_index_if_not_exists (example_world (embedding_api []) (honest_store [])) ''kb''
       [IndicesExists ''kb'', IndicesCreate ''kb'' (Some mapping)] =
     (Inr (), [IndicesExists ''kb'', IndicesCreate ''kb'' (Some mapping), IndicesExists ''kb''])
   \<and> snd (create_index_if_not_exists (example_world (embedding_api []) (honest_store [])) ''kb'' [])
       = [IndicesExists ''kb'', IndicesCreate ''kb'' (Some mapping)]"
proof -
  let ?w = "example_world (embedding_api []) (honest_store [])"
  have h: "store ?w = honest_store []" by (simp add: example_world_def)
  from create_index_idempotent [where w = ?w and init = "[]" and idx = "''kb''" and tr = "[]",
         THEN conjunct1] h
  have a: "create_index_if_not_exists ?w ''kb'' [] =
     (Inr (), [IndicesExists ''kb'', IndicesCreate ''kb'' (Some mapping)])"
    by (simp add: index_present_def)
  have e1: "store ?w [IndicesExists ''kb'', IndicesCreate ''kb'' (Some mapping)] (IndicesExists ''kb'')
             = Inr (JBool True) \<and> truthy (JBool True)"
    by (simp add: example_world_def index_present_def)
  from create_index_idempotent
         [where w = ?w and idx = "''kb''"
            and tr = "[IndicesExists ''kb'', IndicesCreate ''kb'' (Some mapping)]"
            and v = "JBool True", THEN conjunct2, THEN conjunct1] e1
  have b: "create_index_if_not_exists ?w ''kb''
       [IndicesExists ''kb'', IndicesCreate ''kb'' (Some mapping)] =
     (Inr (), [IndicesExists ''kb'', IndicesCreate ''kb'' (Some mapping), IndicesExists ''kb''])"
    by simp
  have e2: "store ?w [] (IndicesExists ''kb'') = Inr (JBool False) \<and> \<not> truthy (JBool False)"
    by (simp add: example_world_def index_present_def)
  from create_index_idempotent
         [where w = ?w and idx = "''kb''" and tr = "[]" and v = "JBool False",
          THEN conjunct2, THEN conjunct2, THEN conjunct1] e2
  have c: "snd (create_index_if_not_exists ?w ''kb'' [])
       = [IndicesExists ''kb'', IndicesCreate ''kb'' (Some mapping)]"
    by simp
  from a b c show ?thesis by blast
qed

end
